theory Spec2Isabelle
  imports Main "HOL-Library.AList" "HOL-Library.Sublist"
begin

section \<open>Python values, exceptions and effects\<close>

text \<open>
  The hooks are Python. The exceptions they can raise are values of \<open>exc\<close>; a call into
  Maya, the Toolkit framework or the tracking server that fails is a \<open>HostError\<close> carrying
  the host's message, so that it can never be confused with the \<open>raise Exception(msg)\<close>
  statements of the hooks themselves (\<open>GenericException\<close>). A Python name with a
  leading underscore, such as \<open>_geo_has_animation\<close>, is written with the prefix
  \<open>priv_\<close>; line numbers are those of the source file named in the section.
\<close>

datatype exc =
    NameError string
  | KeyError string
  | TypeError string
  | AttributeError string
  | IndexError
  | GenericException string
  | HostError string

datatype pyval = PyNone | PyBool bool | PyInt int | PyStr string

text \<open>Python truth value testing, for the values the hooks test.\<close>

fun truthy :: "pyval \<Rightarrow> bool" where
  "truthy PyNone = False"
| "truthy (PyBool b) = b"
| "truthy (PyInt i) = (i \<noteq> 0)"
| "truthy (PyStr s) = (s \<noteq> [])"

text \<open>
  \<open>a or b\<close>: the right operand is evaluated only when the left one is falsy, so it is
  passed as a computation that may raise; the value of the expression is the operand
  that decided it.
\<close>

definition py_or :: "pyval \<Rightarrow> exc + pyval \<Rightarrow> exc + pyval" where
  "py_or a b = (if truthy a then Inr a else b)"

text \<open>\<open>sub in v\<close> for a string \<open>sub\<close>: substring test on a string, TypeError on \<open>None\<close>, a bool or an int.\<close>

fun py_in :: "string \<Rightarrow> pyval \<Rightarrow> exc + pyval" where
  "py_in sub (PyStr s) = Inr (PyBool (sublist sub s))"
| "py_in sub v = Inl (TypeError ''argument is not iterable'')"

text \<open>A dict with string keys is an association list: insertion order is kept, as in Python.\<close>

type_synonym 'v dict = "(string \<times> 'v) list"

definition subscript :: "'v dict \<Rightarrow> string \<Rightarrow> exc + 'v" where
  "subscript d k = (case map_of d k of None \<Rightarrow> Inl (KeyError k) | Some v \<Rightarrow> Inr v)"

definition dict_get :: "'v dict \<Rightarrow> string \<Rightarrow> 'v \<Rightarrow> 'v" where
  "dict_get d k dflt = (case map_of d k of None \<Rightarrow> dflt | Some v \<Rightarrow> v)"

text \<open>
  A property of a publish item: a plain value, a list of names, a dictionary or a
  template (by its number in the host's table of templates).
\<close>

datatype property =
    PVal pyval
  | PNames "string list"
  | PDict "(string \<times> property) list"
  | PTemplate nat

text \<open>
  What a run does to the outside world is a list of events, in the order of the calls.
  \<open>LogErrorExtra\<close> is an error logged with an action button (\<open>extra=...\<close>);
  \<open>BaseValidate\<close> is the call of the base class's \<open>validate\<close>, with the properties of
  the item it is given.
\<close>

datatype event =
    LogDebug string
  | LogInfo string
  | LogWarning string
  | LogError string
  | LogErrorExtra string "string dict"
  | Print string
  | MayaWarning string
  | EnsureFolderExists string
  | Select "string list"
  | MelEval string
  | FileExportSelected string
  | BasePublish string
  | BaseValidate "property dict"
  | SgConnect string string string
  | SgUpdate string pyval "string dict"
  | SetsForceElement "string list" string
  | SetsRemove string string
  | Popen string

text \<open>
  A run of a piece of code: how it ended (an exception, or a value) and the events it
  performed until then.
\<close>

type_synonym 'a run = "(exc + 'a) \<times> event list"

definition returns :: "'a \<Rightarrow> 'a run" where
  "returns x = (Inr x, [])"

definition raises :: "exc \<Rightarrow> 'a run" where
  "raises e = (Inl e, [])"

definition lift :: "exc + 'a \<Rightarrow> 'a run" where
  "lift r = (r, [])"

definition emit :: "event \<Rightarrow> unit run" where
  "emit ev = (Inr (), [ev])"

text \<open>
  A call into the host: the call is performed (the event), and the host either returns
  or raises.
\<close>

definition perform :: "event \<Rightarrow> string option \<Rightarrow> unit run" where
  "perform ev outcome =
     (case outcome of None \<Rightarrow> (Inr (), [ev]) | Some msg \<Rightarrow> (Inl (HostError msg), [ev]))"

text \<open>Sequencing: the statements after a raise are not run.\<close>

definition andthen :: "'a run \<Rightarrow> ('a \<Rightarrow> 'b run) \<Rightarrow> 'b run" where
  "andthen m f =
     (case m of
        (Inl e, t) \<Rightarrow> (Inl e, t)
      | (Inr x, t) \<Rightarrow> (case f x of (r, t') \<Rightarrow> (r, t @ t')))"

text \<open>\<open>try: m except Exception as e: h e\<close>.\<close>

definition try_except :: "'a run \<Rightarrow> (exc \<Rightarrow> 'a run) \<Rightarrow> 'a run" where
  "try_except m h =
     (case m of
        (Inl e, t) \<Rightarrow> (case h e of (r, t') \<Rightarrow> (r, t @ t'))
      | (Inr x, t) \<Rightarrow> (Inr x, t))"

text \<open>The text of an exception, as \<open>"%s" % e\<close> prints it.\<close>

fun exc_text :: "exc \<Rightarrow> string" where
  "exc_text (NameError n) = ''name '' @ [CHR 0x27] @ n @ [CHR 0x27] @ '' is not defined''"
| "exc_text (KeyError k) = [CHR 0x27] @ k @ [CHR 0x27]"
| "exc_text (TypeError m) = m"
| "exc_text (AttributeError m) = m"
| "exc_text IndexError = ''list index out of range''"
| "exc_text (GenericException m) = m"
| "exc_text (HostError m) = m"

section \<open>The publisher's context\<close>

text \<open>
  \<open>publisher.context\<close> and \<open>item.context\<close>: each of \<open>step\<close>, \<open>entity\<close>, \<open>task\<close> and
  \<open>project\<close> is an entity dictionary or \<open>None\<close> (the hooks test \<open>if context.step\<close>,
  \<open>if context.entity\<close>, \<open>if item.context.project\<close>).
\<close>

record sgtk_context =
  step :: "pyval dict option"
  entity :: "pyval dict option"
  task :: "pyval dict option"
  project :: "pyval dict option"

text \<open>\<open>x['k']\<close> on an attribute that may be \<open>None\<close>.\<close>

definition subscript_opt :: "pyval dict option \<Rightarrow> string \<Rightarrow> exc + pyval" where
  "subscript_opt d k =
     (case d of
        None \<Rightarrow> Inl (TypeError ''NoneType object is not subscriptable'')
      | Some kvs \<Rightarrow> subscript kvs k)"

section \<open>publish\_object\_geo.py: get\_ui\_settings\<close>

text \<open>
  The condition of lines 162 and 405, \<open>'TEXTURE' or 'SHADING' in <step name>\<close>. Python
  parses it as \<open>'TEXTURE' or ('SHADING' in <step name>)\<close>; the right operand is given as
  the (possibly raising) evaluation of the membership test.
\<close>

definition step_condition :: "exc + pyval \<Rightarrow> exc + pyval" where
  "step_condition shading_in_step = py_or (PyStr ''TEXTURE'') shading_in_step"

text \<open>
  \<open>get_ui_settings(self, widget, items)\<close>, lines 143-168. \<open>base_ui\<close> is the dictionary the
  base class's \<open>get_ui_settings\<close> returns.
\<close>

definition get_ui_settings :: "pyval dict \<Rightarrow> sgtk_context \<Rightarrow> exc + pyval dict" where
  "get_ui_settings base_ui ctx =
     (let ui_settings = base_ui;
          step_name = (case step ctx of
                         None \<Rightarrow> PyStr []
                       | Some d \<Rightarrow> if d \<noteq> [] then dict_get d ''name'' (PyStr []) else PyStr []);
          entity_type = (case entity ctx of
                           None \<Rightarrow> PyNone
                         | Some d \<Rightarrow> if d \<noteq> [] then dict_get d ''type'' PyNone else PyNone)
      in case step_condition (py_in ''SHADING'' step_name) of
           Inl e \<Rightarrow> Inl e
         | Inr c \<Rightarrow>
             if truthy c
             then Inr (AList.update ''Write Color Sets'' (PyBool True)
                      (AList.update ''Write Uv Sets'' (PyBool True)
                      (AList.update ''Write Uvs'' (PyBool True)
                      (AList.update ''Write Face Sets'' (PyBool True) ui_settings))))
             else Inr ui_settings)"

section \<open>updateConfig.py\<close>

text \<open>
  \<open>main()\<close>. \<open>environ\<close> is \<open>os.environ\<close>; \<open>ctor\<close> is the outcome of constructing the
  \<open>shotgun_api3.Shotgun\<close> handle and \<open>upd\<close> the outcome of \<open>sg.update\<close> (\<open>None\<close>: the call
  returns, \<open>Some msg\<close>: it raises).
\<close>

definition descriptor :: "string \<Rightarrow> string \<Rightarrow> string" where
  "descriptor branch newcode =
     ''sgtk:descriptor:git_branch?branch='' @ branch @
     ''&path=https://github.com/Dps-CCV/DPS_CONFIG_DEV.git&version='' @ newcode"

definition main :: "(string \<rightharpoonup> string) \<Rightarrow> string option \<Rightarrow> string option \<Rightarrow> unit run" where
  "main environ ctor upd =
     andthen (lift (case environ ''UPDATECONFIGKEY'' of
                      None \<Rightarrow> Inl (KeyError ''UPDATECONFIGKEY'') | Some k \<Rightarrow> Inr k))
       (\<lambda>api_key.
     andthen (perform (SgConnect ''https://dareplanet.shotgunstudio.com''
                          ''GithubUpdateConfig'' api_key) ctor)
       (\<lambda>_.
     andthen (lift (case environ ''BRANCH'' of
                      None \<Rightarrow> Inl (KeyError ''BRANCH'') | Some b \<Rightarrow> Inr b))
       (\<lambda>branch.
     andthen (lift (case environ ''NEWCODE'' of
                      None \<Rightarrow> Inl (KeyError ''NEWCODE'') | Some n \<Rightarrow> Inr n))
       (\<lambda>newcode.
     perform (SgUpdate ''PipelineConfiguration'' (PyInt 2542)
                [(''descriptor'', descriptor branch newcode)]) upd))))"

text \<open>The remote writes of a run: its \<open>update\<close> calls.\<close>

fun is_write :: "event \<Rightarrow> bool" where
  "is_write (SgUpdate e i d) = True"
| "is_write ev = False"

definition writes :: "'a run \<Rightarrow> event list" where
  "writes r = filter is_write (snd r)"

section \<open>Strings\<close>

text \<open>\<open>"%d" % n\<close> and \<open>str(n)\<close> for an integer.\<close>

definition digit_char :: "nat \<Rightarrow> char" where
  "digit_char d = char_of (48 + d)"

function str_nat :: "nat \<Rightarrow> string" where
  "str_nat n = (if n < 10 then [digit_char n] else str_nat (n div 10) @ [digit_char (n mod 10)])"
  by pat_completeness auto
termination
  by (relation "measure id") auto

definition str_int :: "int \<Rightarrow> string" where
  "str_int i = (if i < 0 then CHR ''-'' # str_nat (nat (- i)) else str_nat (nat i))"

text \<open>\<open>s.rfind(c)\<close> for a one-character \<open>c\<close>: the last position of \<open>c\<close>, \<open>None\<close> for Python's \<open>-1\<close>.\<close>

fun rfind :: "char \<Rightarrow> string \<Rightarrow> nat option" where
  "rfind c [] = None"
| "rfind c (x # xs) =
     (case rfind c xs of
        Some i \<Rightarrow> Some (Suc i)
      | None \<Rightarrow> if x = c then Some 0 else None)"

text \<open>\<open>s.split(c)[-1]\<close>: what follows the last \<open>c\<close>, the whole string when there is none.\<close>

definition split_last :: "char \<Rightarrow> string \<Rightarrow> string" where
  "split_last c s = (case rfind c s of None \<Rightarrow> s | Some i \<Rightarrow> drop (Suc i) s)"

text \<open>\<open>sep.join(xs)\<close>.\<close>

fun join :: "string \<Rightarrow> string list \<Rightarrow> string" where
  "join sep [] = []"
| "join sep [x] = x"
| "join sep (x # y # ys) = x @ sep @ join sep (y # ys)"

text \<open>\<open>s.replace(c, d)\<close> for one-character \<open>c\<close> and \<open>d\<close>.\<close>

definition replace_char :: "char \<Rightarrow> char \<Rightarrow> string \<Rightarrow> string" where
  "replace_char c d s = map (\<lambda>x. if x = c then d else x) s"

text \<open>
  The loop \<open>seen = set(); out = []; for s in xs: if s not in seen: seen.add(s); out.append(s)\<close>:
  duplicates are dropped and the first occurrence keeps its place.
\<close>

fun dedup_seen :: "'a list \<Rightarrow> 'a list \<Rightarrow> 'a list" where
  "dedup_seen seen [] = []"
| "dedup_seen seen (s # ss) =
     (if s \<in> set seen then dedup_seen seen ss else s # dedup_seen (s # seen) ss)"

definition dedup :: "'a list \<Rightarrow> 'a list" where
  "dedup xs = dedup_seen [] xs"

text \<open>\<open>x or []\<close> for a command result that is a list or \<open>None\<close>.\<close>

definition or_empty :: "'a list option \<Rightarrow> 'a list" where
  "or_empty r = (case r of None \<Rightarrow> [] | Some xs \<Rightarrow> xs)"

section \<open>The Maya scene, as the hooks query it\<close>

text \<open>
  One field per query the hooks make through \<open>maya.cmds\<close>, named after the command and
  its flags; a result is \<open>None\<close> where the command returns \<open>None\<close>. The three
  membership commands that the hooks wrap in \<open>try\<close> can raise (\<open>Some msg\<close>, \<open>Inl msg\<close>).
  \<open>set_order\<close> is the order in which the interpreter iterates a \<open>set\<close> of names, and
  \<open>py_int\<close> is the builtin \<open>int\<close> on strings (\<open>None\<close>: ValueError).
\<close>

record scene =
  ls_selection :: "string list"
  ls_selection_long :: "string list option"
  nodeType :: "string \<Rightarrow> string"
  listRelatives_ad :: "string \<Rightarrow> string list option"
  listAnimatable :: "string \<Rightarrow> string list option"
  keyframeCount :: "string \<Rightarrow> int"
  listConnections_source :: "string \<Rightarrow> string list option"
  listRelatives_parent :: "string \<Rightarrow> string list option"
  listRelatives_ad_mesh :: "string \<Rightarrow> string list option"
  listRelatives_shapes :: "string \<Rightarrow> string list option"
  listConnections_shadingEngine :: "string \<Rightarrow> string list option"
  sets_query :: "string \<Rightarrow> string + string list option"
  sets_forceElement :: "string list \<Rightarrow> string \<Rightarrow> string option"
  sets_remove :: "string \<Rightarrow> string \<Rightarrow> string option"
  ls_long :: "string \<Rightarrow> string list option"
  polyEvaluate_face :: "string \<Rightarrow> int"
  filterExpand_sm34 :: "string list \<Rightarrow> string list option"
  ls_mesh_long :: "string list option"
  ls_geometry :: "string list option"
  objExists :: "string \<Rightarrow> bool"
  listRelatives_ad_shapes :: "string \<Rightarrow> string list option"
  file_sn :: "string option"
  playbackOptions_min :: int
  playbackOptions_max :: int
  set_order :: "string list \<Rightarrow> string list"
  py_int :: "string \<Rightarrow> int option"

section \<open>publish\_object\_geo.py: animation detection\<close>

text \<open>
  \<open>_find_scene_animation_range()\<close>, lines 449-468 (the two fields hold the values after
  \<open>int(...)\<close>).
\<close>

definition priv_find_scene_animation_range :: "scene \<Rightarrow> int \<times> int" where
  "priv_find_scene_animation_range sc = (playbackOptions_min sc, playbackOptions_max sc)"

text \<open>
  \<open>_geo_has_animation(node)\<close>, lines 471-498. The inner loop over the animatable
  attributes returns the flag it leaves in \<open>breakFlag\<close>; the outer loop over \<open>nodos\<close> stops
  at the first node that sets it.
\<close>

fun keyframe_loop :: "scene \<Rightarrow> string list \<Rightarrow> bool" where
  "keyframe_loop sc [] = False"
| "keyframe_loop sc (attribute # attributes) =
     (if keyframeCount sc attribute > 0 then True else keyframe_loop sc attributes)"

fun nodos_loop :: "scene \<Rightarrow> string list \<Rightarrow> bool" where
  "nodos_loop sc [] = False"
| "nodos_loop sc (i # nodos) =
     (if nodeType sc i = ''transform'' then
        (case listAnimatable sc i of
           Some animAttributes \<Rightarrow>
             if keyframe_loop sc animAttributes then True else nodos_loop sc nodos
         | None \<Rightarrow> nodos_loop sc nodos)
      else if nodeType sc i = ''mesh'' then
        (case listConnections_source sc (i @ ''.inMesh'') of
           Some connections \<Rightarrow> True
         | None \<Rightarrow> nodos_loop sc nodos)
      else nodos_loop sc nodos)"

definition priv_geo_has_animation :: "scene \<Rightarrow> string \<Rightarrow> bool" where
  "priv_geo_has_animation sc node =
     (case listRelatives_ad sc node of
        None \<Rightarrow> False
      | Some nodos \<Rightarrow> nodos_loop sc (node # nodos))"

text \<open>
  What the description of the detection speaks of: a node counts as animated when it is a
  transform with a keyed animatable attribute, or a mesh whose \<open>inMesh\<close> has an incoming
  connection; the descendants of a node are what \<open>listRelatives(node, ad=True)\<close> lists.
\<close>

definition animated_node :: "scene \<Rightarrow> string \<Rightarrow> bool" where
  "animated_node sc i =
     ((nodeType sc i = ''transform'' \<and>
         list_ex (\<lambda>a. 0 < keyframeCount sc a) (or_empty (listAnimatable sc i)))
      \<or> (nodeType sc i = ''mesh'' \<and> listConnections_source sc (i @ ''.inMesh'') \<noteq> None))"

definition descendants :: "scene \<Rightarrow> string \<Rightarrow> string list" where
  "descendants sc node = or_empty (listRelatives_ad sc node)"

definition node_or_descendant_animated :: "scene \<Rightarrow> string \<Rightarrow> bool" where
  "node_or_descendant_animated sc node = list_ex (animated_node sc) (node # descendants sc node)"

text \<open>An empty scene, from which the scenes of the examples are built.\<close>

definition empty_scene :: scene where
  "empty_scene =
     \<lparr> ls_selection = [], ls_selection_long = None, nodeType = (\<lambda>n. []),
       listRelatives_ad = (\<lambda>n. None), listAnimatable = (\<lambda>n. None),
       keyframeCount = (\<lambda>a. 0), listConnections_source = (\<lambda>a. None),
       listRelatives_parent = (\<lambda>n. None), listRelatives_ad_mesh = (\<lambda>n. None),
       listRelatives_shapes = (\<lambda>n. None), listConnections_shadingEngine = (\<lambda>n. None),
       sets_query = (\<lambda>sg. Inr None), sets_forceElement = (\<lambda>cs sg. None),
       sets_remove = (\<lambda>n sg. None), ls_long = (\<lambda>n. None), polyEvaluate_face = (\<lambda>n. 0),
       filterExpand_sm34 = (\<lambda>cs. None), ls_mesh_long = None, ls_geometry = None,
       objExists = (\<lambda>n. False), listRelatives_ad_shapes = (\<lambda>n. None),
       file_sn = None, playbackOptions_min = 0, playbackOptions_max = 0,
       set_order = (\<lambda>xs. xs), py_int = (\<lambda>s. None) \<rparr>"

text \<open>A lone animated transform: a null with a keyed \<open>translateX\<close> and nothing below it.\<close>

definition keyed_null_scene :: scene where
  "keyed_null_scene =
     empty_scene
       \<lparr> nodeType := (\<lambda>n. if n = ''|null1'' then ''transform'' else []),
         listAnimatable := (\<lambda>n. if n = ''|null1'' then Some [''|null1.translateX''] else None),
         keyframeCount := (\<lambda>a. if a = ''|null1.translateX'' then 2 else 0) \<rparr>"

text \<open>The same null with one child, a locator shape.\<close>

definition keyed_parent_scene :: scene where
  "keyed_parent_scene =
     keyed_null_scene
       \<lparr> listRelatives_ad := (\<lambda>n. if n = ''|null1'' then Some [''|null1|locatorShape1''] else None) \<rparr>"

section \<open>publish\_object\_geo.py: face sets\<close>

text \<open>\<open>print(xs)\<close> of a list of names.\<close>

definition py_repr_list :: "string list \<Rightarrow> string" where
  "py_repr_list xs = ''['' @ join '', '' (map (\<lambda>x. [CHR 0x27] @ x @ [CHR 0x27]) xs) @ '']''"

text \<open>
  \<open>_get_selected_mesh_shapes()\<close>, lines 596-639. \<open>roots\<close> is a Python set: \<open>add_root\<close>
  adds a name that is not yet in it, and the loop over it runs in the interpreter's order.
\<close>

definition add_root :: "scene \<Rightarrow> string list \<Rightarrow> string \<Rightarrow> string list" where
  "add_root sc roots node =
     (let nt = nodeType sc node in
      if nt = ''transform'' then List.insert node roots
      else if nt = ''mesh'' then
        (case or_empty (listRelatives_parent sc node) of
           [] \<Rightarrow> roots
         | parent # ps \<Rightarrow> List.insert parent roots)
      else roots)"

definition priv_get_selected_mesh_shapes :: "scene \<Rightarrow> string list run" where
  "priv_get_selected_mesh_shapes sc =
     (let sel = or_empty (ls_selection_long sc) in
      if sel = [] then
        andthen (emit (MayaWarning
                   ''Nothing selected. Select one or more root transforms to process.''))
          (\<lambda>_. returns [])
      else
        let roots = foldl (add_root sc) [] sel;
            explicit_meshes = filter (\<lambda>n. nodeType sc n = ''mesh'') sel;
            shapes = explicit_meshes @
                     concat (map (\<lambda>root. or_empty (listRelatives_ad_mesh sc root))
                               (set_order sc roots));
            out = dedup shapes
        in andthen (if out = []
                    then emit (MayaWarning ''No mesh shapes found under the selected nodes.'')
                    else returns ())
             (\<lambda>_. andthen (emit (Print (py_repr_list out))) (\<lambda>_. returns out)))"

text \<open>\<open>_get_shape_transform(shape_long)\<close>, lines 641-642.\<close>

definition priv_get_shape_transform :: "scene \<Rightarrow> string \<Rightarrow> string option" where
  "priv_get_shape_transform sc shape_long =
     (case or_empty (listRelatives_parent sc shape_long) of
        [] \<Rightarrow> None
      | parent # ps \<Rightarrow> Some parent)"

text \<open>\<open>_expand_face_components(comps)\<close>, lines 644-654, for a list of component strings.\<close>

definition priv_expand_face_components :: "scene \<Rightarrow> string list \<Rightarrow> string list" where
  "priv_expand_face_components sc comps =
     (if comps = [] then [] else or_empty (filterExpand_sm34 sc comps))"

text \<open>
  \<open>_parse_face_indices(face_components)\<close>, lines 656-671: the integer between the last
  \<open>[\<close> and the last \<open>]\<close> of each component, where there is one.
\<close>

definition parse_face_index :: "scene \<Rightarrow> string \<Rightarrow> int option" where
  "parse_face_index sc component =
     (case rfind CHR ''['' component of
        None \<Rightarrow> None
      | Some lb \<Rightarrow>
          (case rfind CHR '']'' component of
             None \<Rightarrow> None
           | Some rb \<Rightarrow> py_int sc (take (rb - (lb + 1)) (drop (lb + 1) component))))"

definition priv_parse_face_indices :: "scene \<Rightarrow> string list \<Rightarrow> int set" where
  "priv_parse_face_indices sc face_components =
     set (List.map_filter (parse_face_index sc) face_components)"

text \<open>\<open>_connected_shading_groups(shape_long)\<close>, lines 673-685.\<close>

definition priv_connected_shading_groups :: "scene \<Rightarrow> string \<Rightarrow> string list" where
  "priv_connected_shading_groups sc shape_long =
     dedup (or_empty (listConnections_shadingEngine sc shape_long))"

text \<open>\<open>_members_for_sg(sg)\<close>, lines 687-695: a failing query counts as no members.\<close>

definition priv_members_for_sg :: "scene \<Rightarrow> string \<Rightarrow> string list" where
  "priv_members_for_sg sc sg =
     (case sets_query sc sg of Inl msg \<Rightarrow> [] | Inr members \<Rightarrow> or_empty members)"

text \<open>\<open>_is_member_object_level_for_shape(member, shape_long)\<close>, lines 697-713.\<close>

definition priv_is_member_object_level_for_shape :: "scene \<Rightarrow> string \<Rightarrow> string \<Rightarrow> bool" where
  "priv_is_member_object_level_for_shape sc member shape_long =
     (let member_long = (case or_empty (ls_long sc member) of [] \<Rightarrow> member | l # ls \<Rightarrow> l) in
      if member_long = shape_long \<or> member = split_last CHR ''|'' shape_long then True
      else if nodeType sc member_long = ''transform''
        then shape_long \<in> set (or_empty (listRelatives_shapes sc member_long))
      else False)"

text \<open>
  \<open>_collect_face_assignments_for_shape(shape_long, sgs)\<close>, lines 715-755.
  \<open>is_face_member\<close> is the test of line 736; \<open>sg_assignment\<close> is one turn of the loop over
  the shading groups: the face indices found among the members of \<open>sg\<close>, and
  \<open>object_level_here\<close>.
\<close>

definition is_face_member :: "string \<Rightarrow> string \<Rightarrow> bool" where
  "is_face_member shape_long m =
     (prefix (shape_long @ ''.f['') m \<or>
      (suffix ''.f]'' m \<and> sublist (split_last CHR ''|'' shape_long @ ''.f['') m))"

definition sg_assignment :: "scene \<Rightarrow> string \<Rightarrow> string \<Rightarrow> int set \<times> bool" where
  "sg_assignment sc shape_long sg =
     (let members = priv_members_for_sg sc sg in
      if members = [] then ({}, False)
      else
        let comp_members = filter (is_face_member shape_long) members;
            object_level_here =
              list_ex (\<lambda>m. \<not> is_face_member shape_long m \<and>
                            priv_is_member_object_level_for_shape sc m shape_long) members;
            expanded = priv_expand_face_components sc comp_members;
            indices = priv_parse_face_indices sc expanded
        in (indices, object_level_here))"

definition clamp_faces :: "int \<Rightarrow> int set \<Rightarrow> int set" where
  "clamp_faces face_count s = {i \<in> s. 0 \<le> i \<and> i < face_count}"

definition priv_collect_face_assignments_for_shape ::
  "scene \<Rightarrow> string \<Rightarrow> string list \<Rightarrow> int set \<times> (string \<times> int set) list \<times> string list \<times> int" where
  "priv_collect_face_assignments_for_shape sc shape_long sgs =
     (let face_count = polyEvaluate_face sc shape_long;
          assigned_faces_all = \<Union> (set (map (\<lambda>sg. fst (sg_assignment sc shape_long sg)) sgs));
          per_sg_faces = map (\<lambda>sg. (sg, fst (sg_assignment sc shape_long sg))) (dedup sgs);
          object_level_sgs = filter (\<lambda>sg. snd (sg_assignment sc shape_long sg)) sgs
      in (clamp_faces face_count assigned_faces_all,
          map (\<lambda>(sg, faces). (sg, clamp_faces face_count faces)) per_sg_faces,
          object_level_sgs,
          face_count))"

text \<open>
  \<open>_assign_faces_to_sg(shape_long, face_indices, sg)\<close>, lines 757-767: one
  \<open>cmds.sets(face_components, edit=True, forceElement=sg)\<close> for a non-empty set of faces,
  a warning when the command raises.
\<close>

definition face_components :: "string \<Rightarrow> int set \<Rightarrow> string list" where
  "face_components shape_long face_indices =
     map (\<lambda>idx. shape_long @ ''.f['' @ str_int idx @ '']'') (sorted_list_of_set face_indices)"

definition priv_assign_faces_to_sg :: "scene \<Rightarrow> string \<Rightarrow> int set \<Rightarrow> string \<Rightarrow> unit run" where
  "priv_assign_faces_to_sg sc shape_long face_indices sg =
     (if face_indices = {} then returns ()
      else
        try_except
          (perform (SetsForceElement (face_components shape_long face_indices) sg)
             (sets_forceElement sc (face_components shape_long face_indices) sg))
          (\<lambda>ex. emit (MayaWarning
                   (''Failed assigning faces to '' @ sg @ '': '' @ exc_text ex))))"

text \<open>\<open>_remove_object_level_membership(shape_long, sg)\<close>, lines 769-780.\<close>

fun remove_targets_loop :: "scene \<Rightarrow> string \<Rightarrow> string option list \<Rightarrow> unit run" where
  "remove_targets_loop sc sg [] = returns ()"
| "remove_targets_loop sc sg (target # targets) =
     (case target of
        None \<Rightarrow> remove_targets_loop sc sg targets
      | Some t \<Rightarrow>
          if t = [] then remove_targets_loop sc sg targets
          else andthen (try_except (perform (SetsRemove t sg) (sets_remove sc t sg))
                          (\<lambda>ex. returns ()))
                 (\<lambda>_. remove_targets_loop sc sg targets))"

definition priv_remove_object_level_membership :: "scene \<Rightarrow> string \<Rightarrow> string \<Rightarrow> unit run" where
  "priv_remove_object_level_membership sc shape_long sg =
     remove_targets_loop sc sg [Some shape_long, priv_get_shape_transform sc shape_long]"

text \<open>
  \<open>_convert_object_level_materials_to_face_sets\<close>, lines 782-827. \<open>convert_loop\<close> is the
  loop of lines 816-824 and returns \<open>remaining\<close> as the loop leaves it.
\<close>

definition print_when :: "bool \<Rightarrow> string list \<Rightarrow> unit run" where
  "print_when verbose msgs = (if verbose then (Inr (), map Print msgs) else returns ())"

fun convert_loop :: "scene \<Rightarrow> string \<Rightarrow> bool \<Rightarrow> string list \<Rightarrow> int set \<Rightarrow> int set run" where
  "convert_loop sc shape_long remove_object_level_links [] remaining = returns remaining"
| "convert_loop sc shape_long remove_object_level_links (sg # sgs) remaining =
     (if remaining = {} then returns remaining
      else
        let to_assign = remaining in
        andthen (priv_assign_faces_to_sg sc shape_long to_assign sg)
          (\<lambda>_. andthen (if remove_object_level_links
                         then priv_remove_object_level_membership sc shape_long sg
                         else returns ())
          (\<lambda>_. convert_loop sc shape_long remove_object_level_links sgs
                  (remaining - to_assign))))"

definition priv_convert_object_level_materials_to_face_sets ::
  "scene \<Rightarrow> string \<Rightarrow> bool \<Rightarrow> bool \<Rightarrow> unit run" where
  "priv_convert_object_level_materials_to_face_sets sc shape_long remove_object_level_links verbose =
     (if nodeType sc shape_long \<noteq> ''mesh'' then returns ()
      else
        let sgs = priv_connected_shading_groups sc shape_long in
        if sgs = [] then returns ()
        else
          case priv_collect_face_assignments_for_shape sc shape_long sgs of
            (assigned_faces_all, per_sg_faces, object_level_sgs, face_count) \<Rightarrow>
              andthen (print_when verbose
                         [[CHR 0x0A] @ ''[FaceSets] Processing: '' @ shape_long,
                          ''  Connected SGs: '' @ join '', '' sgs,
                          ''  Face count: '' @ str_int face_count,
                          if object_level_sgs \<noteq> []
                          then ''  Object-level SGs detected: '' @ join '', '' object_level_sgs
                          else ''  No object-level SGs on this shape.''])
                (\<lambda>_.
                   if object_level_sgs = [] then returns ()
                   else
                     andthen (convert_loop sc shape_long remove_object_level_links
                                object_level_sgs ({0..<face_count} - assigned_faces_all))
                       (\<lambda>remaining.
                          print_when verbose
                            [''  Conversion done (remaining unassigned faces after pass: '' @
                             str_nat (card remaining) @ '').''])))"

text \<open>
  The names bound at module level in publish\_object\_geo.py when a hook method runs: the
  imports, \<open>HookBaseClass\<close>, the class and the functions defined with \<open>def\<close>. None of them
  is a Python builtin, and no builtin has the name that \<open>bake_facesets_for_selection\<close>
  looks up.
\<close>

datatype binding = Module | Class | Function | Function_convert_face_sets

definition publish_object_geo_namespace :: "(string \<times> binding) list" where
  "publish_object_geo_namespace =
     [(''os'', Module), (''cmds'', Module), (''mel'', Module), (''sgtk'', Module),
      (''six'', Module), (''QtCore'', Module), (''QtGui'', Module),
      (''HookBaseClass'', Class), (''MayaObjectGeometryPublishPlugin'', Class),
      (''_find_scene_animation_range'', Function), (''_geo_has_animation'', Function),
      (''_session_path'', Function), (''_get_save_as_action'', Function),
      (''_get_root_from_first_mesh'', Function), (''_get_root_node'', Function),
      (''_get_selected_mesh_shapes'', Function), (''_get_shape_transform'', Function),
      (''_expand_face_components'', Function), (''_parse_face_indices'', Function),
      (''_connected_shading_groups'', Function), (''_members_for_sg'', Function),
      (''_is_member_object_level_for_shape'', Function),
      (''_collect_face_assignments_for_shape'', Function),
      (''_assign_faces_to_sg'', Function), (''_remove_object_level_membership'', Function),
      (''_convert_object_level_materials_to_face_sets'', Function_convert_face_sets),
      (''bake_facesets_for_selection'', Function)]"

text \<open>
  The call \<open>name(s, remove_object_level_links=..., verbose=...)\<close> of a global name: the
  name is looked up first (NameError when it is not bound); a module, a class or a
  function without these keyword parameters cannot be called this way.
\<close>

definition call_global :: "scene \<Rightarrow> string \<Rightarrow> string \<Rightarrow> bool \<Rightarrow> bool \<Rightarrow> unit run" where
  "call_global sc name s remove_object_level_links verbose =
     (case map_of publish_object_geo_namespace name of
        None \<Rightarrow> raises (NameError name)
      | Some Function_convert_face_sets \<Rightarrow>
          priv_convert_object_level_materials_to_face_sets sc s remove_object_level_links verbose
      | Some _ \<Rightarrow> raises (TypeError (name @ '' cannot be called with these arguments'')))"

text \<open>
  \<open>bake_facesets_for_selection\<close>, lines 829-846. Every turn of the loop looks the
  function up by the name written at line 839, before it calls it.
\<close>

fun bake_loop :: "scene \<Rightarrow> bool \<Rightarrow> bool \<Rightarrow> string list \<Rightarrow> unit run" where
  "bake_loop sc remove_object_level_links verbose [] = returns ()"
| "bake_loop sc remove_object_level_links verbose (s # shapes) =
     andthen (call_global sc ''convert_object_level_materials_to_face_sets'' s
                remove_object_level_links verbose)
       (\<lambda>_. bake_loop sc remove_object_level_links verbose shapes)"

definition bake_facesets_for_selection :: "scene \<Rightarrow> bool \<Rightarrow> bool \<Rightarrow> string list run" where
  "bake_facesets_for_selection sc remove_object_level_links verbose =
     andthen (priv_get_selected_mesh_shapes sc)
       (\<lambda>shapes.
          if shapes = [] then returns []
          else
            andthen (bake_loop sc remove_object_level_links verbose shapes)
              (\<lambda>_. andthen (print_when verbose
                               [[CHR 0x0A] @ ''[FaceSets] Finished. Processed '' @
                                str_nat (length shapes) @ '' mesh shape(s).''])
              (\<lambda>_. returns shapes)))"

text \<open>The per-face assignments a run performs: its \<open>forceElement\<close> calls.\<close>

fun is_force_element :: "event \<Rightarrow> bool" where
  "is_force_element (SetsForceElement comps sg) = True"
| "is_force_element ev = False"

definition force_element_calls :: "'a run \<Rightarrow> event list" where
  "force_element_calls r = filter is_force_element (snd r)"

text \<open>
  A cube with three faces connected to three shading groups: face 0 is assigned per face
  to \<open>sgA\<close>, and the shape is a member of both \<open>sgB\<close> and \<open>sgC\<close> at object level.
\<close>

definition cube_scene :: scene where
  "cube_scene =
     empty_scene
       \<lparr> ls_selection := [''pCube1''],
         ls_selection_long := Some [''|pCube1''],
         nodeType := (\<lambda>n. if n = ''|pCube1'' then ''transform''
                          else if n = ''|pCube1|pCubeShape1'' then ''mesh'' else []),
         listRelatives_parent := (\<lambda>n. if n = ''|pCube1|pCubeShape1'' then Some [''|pCube1'']
                                     else None),
         listRelatives_ad_mesh := (\<lambda>n. if n = ''|pCube1'' then Some [''|pCube1|pCubeShape1'']
                                      else None),
         listConnections_shadingEngine :=
           (\<lambda>n. if n = ''|pCube1|pCubeShape1'' then Some [''sgA'', ''sgB'', ''sgC'', ''sgB'']
                else None),
         sets_query :=
           (\<lambda>sg. if sg = ''sgA'' then Inr (Some [''|pCube1|pCubeShape1.f[0]''])
                 else if sg = ''sgB'' then Inr (Some [''|pCube1|pCubeShape1''])
                 else if sg = ''sgC'' then Inr (Some [''|pCube1|pCubeShape1''])
                 else Inr None),
         ls_long := (\<lambda>n. Some [n]),
         polyEvaluate_face := (\<lambda>n. 3),
         filterExpand_sm34 := (\<lambda>cs. Some cs),
         py_int := (\<lambda>s. if s = ''0'' then Some 0 else None) \<rparr>"

text \<open>
  The same cube with faces 0 and 1 assigned per face to \<open>sgA\<close>, listed as one range by
  the shape's long path; \<open>filterExpand\<close> expands the range into its two faces.
\<close>

definition range_cube_scene :: scene where
  "range_cube_scene =
     cube_scene
       \<lparr> sets_query :=
           (\<lambda>sg. if sg = ''sgA'' then Inr (Some [''|pCube1|pCubeShape1.f[0:1]''])
                 else if sg = ''sgB'' then Inr (Some [''|pCube1|pCubeShape1''])
                 else if sg = ''sgC'' then Inr (Some [''|pCube1|pCubeShape1''])
                 else Inr None),
         filterExpand_sm34 :=
           (\<lambda>cs. if cs = [''|pCube1|pCubeShape1.f[0:1]'']
                 then Some [''|pCube1|pCubeShape1.f[0]'', ''|pCube1|pCubeShape1.f[1]'']
                 else None),
         py_int := (\<lambda>s. if s = ''0'' then Some 0 else if s = ''1'' then Some 1 else None) \<rparr>"

text \<open>
  The cube as \<open>cmds.sets(sg, q=True)\<close> lists it when the names are unique in the scene:
  face 0 is assigned per face to \<open>sgA\<close> and listed under the transform's short name,
  \<open>sgB\<close> and \<open>sgC\<close> hold the shape at object level under its short name. \<open>cmds.ls\<close>
  gives the long names, and the node of a face component is the mesh.
\<close>

definition short_cube_scene :: scene where
  "short_cube_scene =
     cube_scene
       \<lparr> nodeType := (\<lambda>n. if n = ''|pCube1'' then ''transform''
                          else if n = ''|pCube1|pCubeShape1'' then ''mesh''
                          else if n = ''|pCube1|pCubeShape1.f[0]'' then ''mesh'' else []),
         sets_query :=
           (\<lambda>sg. if sg = ''sgA'' then Inr (Some [''pCube1.f[0]''])
                 else if sg = ''sgB'' then Inr (Some [''pCubeShape1''])
                 else if sg = ''sgC'' then Inr (Some [''pCubeShape1''])
                 else Inr None),
         ls_long := (\<lambda>n. if n = ''pCube1.f[0]'' then Some [''|pCube1|pCubeShape1.f[0]'']
                         else if n = ''pCubeShape1'' then Some [''|pCube1|pCubeShape1'']
                         else Some [n]) \<rparr>"

section \<open>Items, templates and the host of a publish\<close>

text \<open>
  A Toolkit template, by the three methods the hooks call; \<open>get_fields\<close> and
  \<open>apply_fields\<close> raise (\<open>Inl msg\<close>) when the path or the fields do not fit the template.
\<close>

record template =
  get_fields :: "string \<Rightarrow> string + property dict"
  missing_keys :: "property dict \<Rightarrow> string list"
  apply_fields :: "property dict \<Rightarrow> string + string"
  validate_path :: "string \<Rightarrow> bool"

text \<open>
  A publish item: its type, its \<open>properties\<close> dictionary, its context and the properties
  of its parent item.
\<close>

record item =
  item_type :: string
  properties :: "property dict"
  item_context :: sgtk_context
  parent_properties :: "property dict"

text \<open>
  What a publish asks of the framework, of \<open>os.path\<close> and of the commands that change
  the scene. \<open>select\<close> either raises or leaves the scene in the state it returns; the
  other commands return (\<open>None\<close>) or raise (\<open>Some msg\<close>). \<open>geo_has_animation_other\<close>
  stands for \<open>_geo_has_animation\<close> on an argument that is not a node name (the list or
  \<open>None\<close> that \<open>listRelatives(..., parent=True)\<close> returns): what the commands do with
  it is the host's business. \<open>base_validate\<close> is the base class's \<open>validate\<close>: it
  raises or returns a truth value. \<open>current_engine\<close> is
  \<open>sgtk.platform.current_engine()\<close>: \<open>None\<close>, or the engine by its \<open>apps\<close>
  dictionary, which gives for the name of an app whether the app has the attribute
  \<open>show_file_save_dlg\<close>.
\<close>

record host =
  templates :: "nat \<Rightarrow> template"
  os_path_dirname :: "string \<Rightarrow> string"
  os_path_basename :: "string \<Rightarrow> string"
  ShotgunPath_normalize :: "string \<Rightarrow> string"
  object_str :: "property \<Rightarrow> string"
  ensure_folder_exists :: "string \<Rightarrow> string option"
  select :: "string list \<Rightarrow> string + scene"
  geo_has_animation_other :: "string list option \<Rightarrow> string + bool"
  mel_eval :: "string \<Rightarrow> string option"
  file_exportSelected :: "string \<Rightarrow> string option"
  base_publish :: "item \<Rightarrow> string option"
  shotgun_update :: "string \<Rightarrow> pyval \<Rightarrow> string dict \<Rightarrow> string option"
  base_validate :: "item \<Rightarrow> string + bool"
  current_engine :: "bool dict option"

text \<open>A host call that raises or returns a value.\<close>

definition host_result :: "string + 'a \<Rightarrow> exc + 'a" where
  "host_result r = (case r of Inl msg \<Rightarrow> Inl (HostError msg) | Inr x \<Rightarrow> Inr x)"

text \<open>\<open>xs[0]\<close>.\<close>

definition index0 :: "'a list \<Rightarrow> exc + 'a" where
  "index0 xs = (case xs of [] \<Rightarrow> Inl IndexError | x # _ \<Rightarrow> Inr x)"

text \<open>A property used where a path or a node name is expected.\<close>

definition as_str :: "property \<Rightarrow> exc + string" where
  "as_str p = (case p of PVal (PyStr s) \<Rightarrow> Inr s | _ \<Rightarrow> Inl (TypeError ''expected str''))"

text \<open>A property passed to \<open>cmds.select\<close>: a name or a list of names.\<close>

definition as_names :: "property \<Rightarrow> exc + string list" where
  "as_names p =
     (case p of
        PVal (PyStr s) \<Rightarrow> Inr [s]
      | PNames ns \<Rightarrow> Inr ns
      | _ \<Rightarrow> Inl (TypeError ''expected a name or a list of names''))"

text \<open>\<open>settings.get(name).value\<close>.\<close>

definition setting_value :: "pyval dict \<Rightarrow> string \<Rightarrow> exc + pyval" where
  "setting_value settings name =
     (case map_of settings name of
        None \<Rightarrow> Inl (AttributeError ''NoneType object has no attribute value'')
      | Some v \<Rightarrow> Inr v)"

text \<open>\<open>cmds.select(names)\<close>.\<close>

definition select_run :: "host \<Rightarrow> string list \<Rightarrow> scene run" where
  "select_run h names = (host_result (select h names), [Select names])"

section \<open>publish\_object\_geo.py: publish\<close>

text \<open>
  \<open>_get_root_node(node)\<close>, lines 571-587: the loop climbs to the parent as long as there
  is one. It ends on every scene whose parent relation is a forest; \<open>None\<close> is the loop
  that does not end.
\<close>

partial_function (option) priv_get_root_node :: "scene \<Rightarrow> string \<Rightarrow> string option" where
  "priv_get_root_node sc current =
     (case or_empty (listRelatives_parent sc current) of
        [] \<Rightarrow> Some (split_last CHR ''|'' current)
      | parent # ps \<Rightarrow> priv_get_root_node sc parent)"

declare priv_get_root_node.simps [code]

text \<open>\<open>_get_root_from_first_mesh()\<close>, lines 539-568.\<close>

definition priv_get_root_from_first_mesh :: "scene \<Rightarrow> string option run option" where
  "priv_get_root_from_first_mesh sc =
     (case or_empty (ls_mesh_long sc) of
        [] \<Rightarrow> Some (Inr None, [Print ''No meshes found in scene''])
      | first_mesh # ms \<Rightarrow>
          (case or_empty (listRelatives_parent sc first_mesh) of
             [] \<Rightarrow> Some (Inr None, [Print (''First mesh shape: '' @ first_mesh),
                                     Print ''No transform found for mesh''])
           | first_transform # ts \<Rightarrow>
               (case priv_get_root_node sc first_transform of
                  None \<Rightarrow> None
                | Some root_node \<Rightarrow>
                    Some (Inr (Some root_node),
                          [Print (''First mesh shape: '' @ first_mesh),
                           Print (''Transform node: '' @ first_transform),
                           Print (''Root node: '' @ root_node)]))))"

text \<open>
  The argument of \<open>_geo_has_animation\<close> at line 414: the root's name for the session item,
  the result of \<open>listRelatives(..., parent=True)\<close> for an object item.
\<close>

datatype parent_node = ParentName string | ParentOther "string list option"

definition geo_has_animation_of :: "host \<Rightarrow> scene \<Rightarrow> parent_node \<Rightarrow> exc + bool" where
  "geo_has_animation_of h sc parentNode =
     (case parentNode of
        ParentName node \<Rightarrow> Inr (priv_geo_has_animation sc node)
      | ParentOther arg \<Rightarrow> host_result (geo_has_animation_other h arg))"

text \<open>
  Lines 402-412. The result is the scene in force afterwards, \<open>parentNode\<close>, the
  arguments appended to \<open>alembic_args\<close> and the publish type stored in the item. The
  condition of line 405 is \<open>step_condition\<close>, its right operand the membership test on
  \<open>publisher.context.step['name']\<close>. When \<open>bake_facesets_for_selection\<close> returns it has
  changed nothing in the scene: it returns only for an empty list of shapes.
\<close>

definition geo_publish_target ::
  "host \<Rightarrow> scene \<Rightarrow> sgtk_context \<Rightarrow> item \<Rightarrow>
     (scene \<times> parent_node \<times> string list \<times> string) run option" where
  "geo_publish_target h sc publisher_context it =
     (if item_type it \<noteq> ''maya.session.geometries'' then
        Some (
          andthen (lift (subscript (properties it) ''object'')) (\<lambda>object.
          andthen (lift (as_names object)) (\<lambda>names.
          andthen (select_run h names) (\<lambda>sc'.
          andthen (lift (step_condition
                     (case subscript_opt (step publisher_context) ''name'' of
                        Inl e \<Rightarrow> Inl e
                      | Inr step_name \<Rightarrow> py_in ''SHADING'' step_name))) (\<lambda>c.
          andthen (if truthy c
                   then andthen (bake_facesets_for_selection sc' True True) (\<lambda>_. returns ())
                   else returns ()) (\<lambda>_.
          andthen (lift (index0 (ls_selection sc'))) (\<lambda>selected.
          returns (sc', ParentOther (listRelatives_parent sc' selected),
                   [''-root'', selected], ''Alembic Cache''))))))))
      else
        (case priv_get_root_from_first_mesh sc of
           None \<Rightarrow> None
         | Some r \<Rightarrow>
             Some (andthen r (\<lambda>root.
                   returns (sc,
                            (case root of None \<Rightarrow> ParentOther None | Some n \<Rightarrow> ParentName n),
                            [], ''Session Alembic Cache'')))))"

text \<open>Lines 381-400 and 414-427: the export command.\<close>

definition alembic_flags :: "pyval \<Rightarrow> pyval \<Rightarrow> pyval \<Rightarrow> pyval \<Rightarrow> string list" where
  "alembic_flags write_face_sets write_uvs write_uv_sets write_color_sets =
     [''-renderableOnly'', ''-worldSpace'', ''-dataformat'', ''ogawa''] @
     (if truthy write_face_sets then [''-writeFaceSets''] else []) @
     (if truthy write_uvs then [''-uvWrite''] else []) @
     (if truthy write_uv_sets then [''-writeUVSets''] else []) @
     (if truthy write_color_sets then [''-writeColorSets''] else [])"

definition abc_export_cmd :: "scene \<Rightarrow> bool \<Rightarrow> string list \<Rightarrow> string \<Rightarrow> string" where
  "abc_export_cmd sc animated alembic_args publish_path =
     ''AbcExport -j \"'' @
     join '' ''
       ((if animated
         then [''-frameRange '' @
               str_int (fst (priv_find_scene_animation_range sc) - 50) @ '' '' @
               str_int (snd (priv_find_scene_animation_range sc))]
         else []) @
        alembic_args @
        [''-file '' @ replace_char (CHR 0x5C) CHR ''/'' publish_path]) @
     ''\"''"

text \<open>
  Lines 437-445, shared with the shader hook (lines 281-289 there): the base class's
  publish, the selection restored, the task's status set to \<open>rev\<close>.
\<close>

definition publish_finish :: "host \<Rightarrow> item \<Rightarrow> string \<Rightarrow> string list \<Rightarrow> unit run" where
  "publish_finish h it publish_type cur_selection =
     andthen (perform (BasePublish publish_type)
                (base_publish h (it\<lparr>properties :=
                    AList.update ''publish_type'' (PVal (PyStr publish_type)) (properties it)\<rparr>)))
       (\<lambda>_.
     andthen (andthen (select_run h cur_selection) (\<lambda>_. returns ()))
       (\<lambda>_.
     andthen (lift (subscript_opt (task (item_context it)) ''id''))
       (\<lambda>task_id.
     perform (SgUpdate ''Task'' task_id [(''sg_status_list'', ''rev'')])
       (shotgun_update h ''Task'' task_id [(''sg_status_list'', ''rev'')]))))"

text \<open>
  Lines 429-445: the export inside \<open>try\<close>; on an exception the error is logged and
  \<open>publish\<close> returns, otherwise the publish is finished.
\<close>

definition geo_export_and_finish ::
  "host \<Rightarrow> item \<Rightarrow> string \<Rightarrow> string list \<Rightarrow> string \<Rightarrow> unit run" where
  "geo_export_and_finish h it publish_type cur_selection cmd =
     andthen
       (try_except
          (andthen (emit (LogDebug (''Executing command: '' @ cmd)))
             (\<lambda>_. andthen (perform (MelEval cmd) (mel_eval h cmd)) (\<lambda>_. returns True)))
          (\<lambda>e. andthen (emit (LogError (''Failed to export Geometry: '' @ exc_text e)))
                  (\<lambda>_. returns False)))
       (\<lambda>exported.
          if exported then publish_finish h it publish_type cur_selection else returns ())"

text \<open>Lines 364-400: the selection kept, the folder ensured, the four settings read.\<close>

definition geo_publish_begin ::
  "host \<Rightarrow> pyval dict \<Rightarrow> item \<Rightarrow> (string \<times> string list) run" where
  "geo_publish_begin h settings it =
     andthen (lift (subscript (properties it) ''path'')) (\<lambda>path_prop.
     andthen (lift (as_str path_prop)) (\<lambda>publish_path.
     andthen (perform (EnsureFolderExists (os_path_dirname h publish_path))
                (ensure_folder_exists h (os_path_dirname h publish_path))) (\<lambda>_.
     andthen (lift (setting_value settings ''Write Face Sets'')) (\<lambda>write_face_sets.
     andthen (lift (setting_value settings ''Write Uvs'')) (\<lambda>write_uvs.
     andthen (lift (setting_value settings ''Write Uv Sets'')) (\<lambda>write_uv_sets.
     andthen (lift (setting_value settings ''Write Color Sets'')) (\<lambda>write_color_sets.
     returns (publish_path,
              alembic_flags write_face_sets write_uvs write_uv_sets write_color_sets))))))))"

text \<open>
  \<open>MayaObjectGeometryPublishPlugin.publish(settings, item)\<close>, lines 354-445. \<open>sc\<close> is the
  scene when publish is called and \<open>publisher_context\<close> is \<open>publisher.context\<close>. The
  result is \<open>None\<close> only when the loop of \<open>_get_root_node\<close> does not end.
\<close>

definition andthen_opt :: "'a run \<Rightarrow> ('a \<Rightarrow> 'b run option) \<Rightarrow> 'b run option" where
  "andthen_opt m f =
     (case m of
        (Inl e, t) \<Rightarrow> Some (Inl e, t)
      | (Inr x, t) \<Rightarrow>
          (case f x of None \<Rightarrow> None | Some (r, t') \<Rightarrow> Some (r, t @ t')))"

definition geo_publish ::
  "host \<Rightarrow> scene \<Rightarrow> sgtk_context \<Rightarrow> pyval dict \<Rightarrow> item \<Rightarrow> unit run option" where
  "geo_publish h sc publisher_context settings it =
     (let cur_selection = ls_selection sc in
      andthen_opt (geo_publish_begin h settings it) (\<lambda>(publish_path, alembic_args).
        case geo_publish_target h sc publisher_context it of
          None \<Rightarrow> None
        | Some target \<Rightarrow>
            Some (
              andthen target (\<lambda>(sc', parentNode, root_args, publish_type).
              andthen (lift (geo_has_animation_of h sc' parentNode)) (\<lambda>animated.
              geo_export_and_finish h it publish_type cur_selection
                (abc_export_cmd sc' animated (alembic_args @ root_args) publish_path))))))"

section \<open>publish\_shader.py: publish\<close>

text \<open>
  \<open>_get_shading_groups_from_object(obj)\<close>, lines 433-470. \<open>shading_groups\<close> is a Python
  set turned into a list: its distinct names, in the interpreter's order.
\<close>

definition priv_get_shading_groups_from_object :: "scene \<Rightarrow> string \<Rightarrow> string list run" where
  "priv_get_shading_groups_from_object sc obj =
     (if \<not> objExists sc obj
      then (Inr [], [Print (''Object '' @ [CHR 0x27] @ obj @ [CHR 0x27] @ '' does not exist'')])
      else
        let shapes = or_empty (listRelatives_ad_shapes sc obj) @
                     (if nodeType sc obj \<in> set [''mesh'', ''nurbsSurface'', ''nurbsCurve'']
                      then [obj] else []);
            shading_groups =
              set_order sc
                (dedup (concat (map (\<lambda>shape. or_empty (listConnections_shadingEngine sc shape))
                                  shapes)))
        in (Inr shading_groups,
            [Print (''Found '' @ str_nat (length shapes) @ '' shapes under '' @
                    [CHR 0x27] @ obj @ [CHR 0x27]),
             Print ([CHR 0x0A] @ ''Shading Groups connected to '' @
                    [CHR 0x27] @ obj @ [CHR 0x27] @ '':'')] @
            map (\<lambda>sg. Print (''  - '' @ sg)) shading_groups))"

text \<open>Lines 273-289: the export inside \<open>try\<close>, then the publish is finished.\<close>

definition shader_export_and_finish ::
  "host \<Rightarrow> item \<Rightarrow> string list \<Rightarrow> string \<Rightarrow> unit run" where
  "shader_export_and_finish h it cur_selection publish_path =
     andthen
       (try_except
          (andthen (emit (LogDebug ''Executing shaders export command:''))
             (\<lambda>_. andthen (perform (FileExportSelected publish_path)
                              (file_exportSelected h publish_path))
                      (\<lambda>_. returns True)))
          (\<lambda>e. andthen (emit (LogError (''Failed to export Shaders: '' @ exc_text e)))
                  (\<lambda>_. returns False)))
       (\<lambda>exported.
          if exported then publish_finish h it ''Maya Shading Network'' cur_selection
          else returns ())"

text \<open>\<open>MayaObjectShaderPublishPlugin.publish(settings, item)\<close>, lines 241-289.\<close>

definition shader_publish :: "host \<Rightarrow> scene \<Rightarrow> item \<Rightarrow> unit run" where
  "shader_publish h sc it =
     (let cur_selection = ls_selection sc in
      andthen (lift (subscript (properties it) ''path'')) (\<lambda>path_prop.
      andthen (lift (as_str path_prop)) (\<lambda>publish_path.
      andthen (perform (EnsureFolderExists (os_path_dirname h publish_path))
                 (ensure_folder_exists h (os_path_dirname h publish_path))) (\<lambda>_.
      andthen (lift (subscript (properties it) ''object'')) (\<lambda>object.
      andthen (lift (as_str object)) (\<lambda>obj.
      andthen (priv_get_shading_groups_from_object sc obj) (\<lambda>shading_groups.
      andthen (select_run h shading_groups) (\<lambda>_.
      shader_export_and_finish h it cur_selection publish_path))))))))"

section \<open>publish\_object\_geo.py: validate\<close>

text \<open>\<open>str(x)\<close> of a property; the text of an object that is not a plain value is the host's.\<close>

definition py_str :: "host \<Rightarrow> property \<Rightarrow> string" where
  "py_str h p =
     (case p of
        PVal PyNone \<Rightarrow> ''None''
      | PVal (PyBool b) \<Rightarrow> (if b then ''True'' else ''False'')
      | PVal (PyInt i) \<Rightarrow> str_int i
      | PVal (PyStr s) \<Rightarrow> s
      | _ \<Rightarrow> object_str h p)"

text \<open>
  A property on which a template method is called: AttributeError when it is \<open>None\<close> (a
  missing key read with \<open>.get\<close>) or not a template.
\<close>

definition as_template :: "host \<Rightarrow> property \<Rightarrow> string \<Rightarrow> exc + template" where
  "as_template h p method =
     (case p of
        PTemplate n \<Rightarrow> Inr (templates h n)
      | _ \<Rightarrow> Inl (AttributeError (''object has no attribute '' @ method)))"

text \<open>
  \<open>_get_save_as_action()\<close>, lines 514-536: the action button of the log entry. The
  default callback is \<open>cmds.SaveScene\<close>; when the engine has the app
  \<open>tk-multi-workfiles2\<close> and the app has \<open>show_file_save_dlg\<close>, that is the callback.
  \<open>engine.apps\<close> raises AttributeError when there is no current engine.
\<close>

definition priv_get_save_as_action :: "host \<Rightarrow> exc + string dict" where
  "priv_get_save_as_action h =
     (case current_engine h of
        None \<Rightarrow> Inl (AttributeError ''NoneType object has no attribute apps'')
      | Some apps \<Rightarrow>
          Inr [(''label'', ''Save As...''),
               (''tooltip'', ''Save the current session''),
               (''callback'',
                (case map_of apps ''tk-multi-workfiles2'' of
                   None \<Rightarrow> ''cmds.SaveScene''
                 | Some has_dlg \<Rightarrow>
                     if has_dlg then ''app.show_file_save_dlg'' else ''cmds.SaveScene''))])"

text \<open>The two statements that end a failed check: the message is logged, then raised.\<close>

definition validation_error :: "string \<Rightarrow> 'a run" where
  "validation_error error_msg = (Inl (GenericException error_msg), [LogError error_msg])"

text \<open>
  Lines 290-295: the same for the unsaved session, where the arguments of the log call
  include \<open>_get_save_as_action()\<close>, evaluated before the call.
\<close>

definition not_saved_error :: "host \<Rightarrow> 'a run" where
  "not_saved_error h =
     andthen (lift (priv_get_save_as_action h))
       (\<lambda>action. (Inl (GenericException ''The Maya session has not been saved.''),
                   [LogErrorExtra ''The Maya session has not been saved.'' action]))"

definition no_geometry_msg :: string where
  "no_geometry_msg =
     ''Validation failed because there is no geometry in the scene '' @
     ''to be exported. You can uncheck this plugin or create '' @
     ''geometry to export to avoid this error.''"

definition missing_keys_msg :: "string \<Rightarrow> string list \<Rightarrow> string" where
  "missing_keys_msg path keys =
     ''Work file '' @ [CHR 0x27] @ path @ [CHR 0x27] @
     '' missing keys required for the publish template: '' @ py_repr_list keys"

text \<open>
  Line 352, \<open>return super().validate(settings, item)\<close>: the base class's \<open>validate\<close> is
  called with the item as the statements before have left it; what it returns is
  returned, and what it raises is raised.
\<close>

definition base_validate_run :: "host \<Rightarrow> item \<Rightarrow> bool run" where
  "base_validate_run h it = (host_result (base_validate h it), [BaseValidate (properties it)])"

text \<open>
  \<open>MayaObjectGeometryPublishPlugin.validate(settings, item)\<close>, lines 274-352.
\<close>

definition geo_validate :: "host \<Rightarrow> scene \<Rightarrow> item \<Rightarrow> bool run" where
  "geo_validate h sc it =
     (case file_sn sc of
        None \<Rightarrow> not_saved_error h
      | Some session_path \<Rightarrow>
          if session_path = [] then not_saved_error h
          else
            let path = ShotgunPath_normalize h session_path in
            if or_empty (ls_geometry sc) = [] then validation_error no_geometry_msg
            else
              let work_template = dict_get (properties it) ''work_template'' (PVal PyNone);
                  publish_template = dict_get (properties it) ''publish_template'' (PVal PyNone)
              in
              andthen (lift (as_template h work_template ''get_fields'')) (\<lambda>wt.
              andthen (lift (host_result (get_fields wt path))) (\<lambda>work_fields.
              let work_fields = AList.update ''maya.object_name''
                                  (dict_get (properties it) ''object_name'' (PVal PyNone))
                                  work_fields;
                  props = AList.update ''publish_name''
                            (PVal (PyStr
                               (let name = os_path_basename h
                                             (py_str h (dict_get (properties it) ''path''
                                                          (PVal PyNone)))
                                in take (length name - 9) name)))
                            (properties it)
              in
              andthen (lift (as_template h publish_template ''missing_keys'')) (\<lambda>pt.
              let keys = missing_keys pt work_fields in
              if keys \<noteq> [] then validation_error (missing_keys_msg path keys)
              else
                andthen (lift (subscript props ''object_name'')) (\<lambda>object_name.
                let work_fields = AList.update ''maya.object_name'' object_name work_fields in
                andthen (lift (host_result (apply_fields pt work_fields))) (\<lambda>publish_path.
                let props = AList.update ''path'' (PVal (PyStr publish_path)) props;
                    props = AList.update ''publish_path'' (PVal (PyStr publish_path)) props;
                    props = (case map_of work_fields ''version'' of
                               None \<Rightarrow> props
                             | Some version \<Rightarrow> AList.update ''publish_version'' version props)
                in base_validate_run h (it\<lparr>properties := props\<rparr>)))))))"

text \<open>
  The three checks the description of \<open>validate\<close> names. The third one is made on the
  fields of the work template, so it is only reached when both templates are there and
  the session path fits the work template.
\<close>

definition session_not_saved :: "scene \<Rightarrow> bool" where
  "session_not_saved sc = (file_sn sc = None \<or> file_sn sc = Some [])"

definition no_geometry :: "scene \<Rightarrow> bool" where
  "no_geometry sc = (or_empty (ls_geometry sc) = [])"

definition work_fields_of :: "host \<Rightarrow> scene \<Rightarrow> item \<Rightarrow> property dict option" where
  "work_fields_of h sc it =
     (case (file_sn sc, map_of (properties it) ''work_template'') of
        (Some session_path, Some (PTemplate n)) \<Rightarrow>
          (case get_fields (templates h n) (ShotgunPath_normalize h session_path) of
             Inl msg \<Rightarrow> None
           | Inr work_fields \<Rightarrow>
               Some (AList.update ''maya.object_name''
                       (dict_get (properties it) ''object_name'' (PVal PyNone)) work_fields))
      | _ \<Rightarrow> None)"

definition publish_keys_missing :: "host \<Rightarrow> scene \<Rightarrow> item \<Rightarrow> bool" where
  "publish_keys_missing h sc it =
     (case (work_fields_of h sc it, map_of (properties it) ''publish_template'') of
        (Some work_fields, Some (PTemplate n)) \<Rightarrow> missing_keys (templates h n) work_fields \<noteq> []
      | _ \<Rightarrow> False)"

definition is_generic_exception :: "exc + 'a \<Rightarrow> bool" where
  "is_generic_exception r = (case r of Inl (GenericException msg) \<Rightarrow> True | _ \<Rightarrow> False)"

section \<open>What a publish does, and example runs\<close>

text \<open>
  The publish actions of a run: the export command, the base class's publish and the
  remote update, in the order in which the run performed them.
\<close>

fun is_publish_action :: "event \<Rightarrow> bool" where
  "is_publish_action (MelEval cmd) = True"
| "is_publish_action (FileExportSelected path) = True"
| "is_publish_action (BasePublish ty) = True"
| "is_publish_action (SgUpdate e i d) = True"
| "is_publish_action ev = False"

definition publish_actions :: "'a run \<Rightarrow> event list" where
  "publish_actions r = filter is_publish_action (snd r)"

text \<open>The remote update that reports success.\<close>

definition status_update :: "pyval \<Rightarrow> event" where
  "status_update task_id = SgUpdate ''Task'' task_id [(''sg_status_list'', ''rev'')]"

text \<open>A template that fits every path and misses no key.\<close>

definition demo_template :: template where
  "demo_template =
     \<lparr> get_fields = (\<lambda>p. Inr [(''Asset'', PVal (PyStr ''cube'')), (''version'', PVal (PyInt 3))]),
       missing_keys = (\<lambda>fields. []),
       apply_fields = (\<lambda>fields. Inr ''/proj/publish/cube_pCube1.v003.abc''),
       validate_path = (\<lambda>p. True) \<rparr>"

text \<open>
  A host in which every call returns; selecting leaves the cube of \<open>cube_scene\<close>
  selected.
\<close>

definition demo_host :: host where
  "demo_host =
     \<lparr> templates = (\<lambda>n. demo_template),
       os_path_dirname = (\<lambda>p. case rfind CHR ''/'' p of None \<Rightarrow> [] | Some i \<Rightarrow> take i p),
       os_path_basename = (\<lambda>p. split_last CHR ''/'' p),
       ShotgunPath_normalize = (\<lambda>p. p),
       object_str = (\<lambda>p. ''<object>''),
       ensure_folder_exists = (\<lambda>d. None),
       select = (\<lambda>names. Inr cube_scene),
       geo_has_animation_other = (\<lambda>a. Inr False),
       mel_eval = (\<lambda>cmd. None),
       file_exportSelected = (\<lambda>p. None),
       base_publish = (\<lambda>i. None),
       shotgun_update = (\<lambda>e i d. None),
       base_validate = (\<lambda>i. Inr True),
       current_engine = Some [(''tk-multi-workfiles2'', True)] \<rparr>"

definition demo_context :: sgtk_context where
  "demo_context =
     \<lparr> step = Some [(''name'', PyStr ''MODEL_A'')],
       entity = Some [(''type'', PyStr ''Asset'')],
       task = Some [(''id'', PyInt 77)],
       project = None \<rparr>"

definition demo_settings :: "pyval dict" where
  "demo_settings =
     [(''Write Face Sets'', PyBool True), (''Write Uvs'', PyBool True),
      (''Write Uv Sets'', PyBool False), (''Write Color Sets'', PyBool False)]"

text \<open>An object item for the cube, as validate leaves it.\<close>

definition demo_item :: item where
  "demo_item =
     \<lparr> item_type = ''maya.session.object_geo'',
       properties =
         [(''work_template'', PTemplate 0), (''publish_template'', PTemplate 1),
          (''object'', PVal (PyStr ''pCube1'')), (''object_name'', PVal (PyStr ''pCube1'')),
          (''path'', PVal (PyStr ''/proj/publish/cube_pCube1.v003.abc''))],
       item_context = demo_context,
       parent_properties = [] \<rparr>"

text \<open>
  A scene with a NURBS sphere selected and no mesh below it, saved under a path, and the
  host whose \<open>select\<close> leaves that scene: here \<open>bake_facesets_for_selection\<close> finds no
  shape and returns, and the geometry hook's publish goes on to the export.
\<close>

definition sphere_scene :: scene where
  "sphere_scene =
     empty_scene
       \<lparr> ls_selection := [''nurbsSphere1''],
         ls_selection_long := Some [''|nurbsSphere1''],
         nodeType := (\<lambda>n. if n = ''|nurbsSphere1'' then ''transform'' else []),
         objExists := (\<lambda>n. n = ''nurbsSphere1''),
         ls_geometry := Some [''nurbsSphereShape1''],
         file_sn := Some ''/proj/work/cube.v003.ma'' \<rparr>"

definition sphere_host :: host where
  "sphere_host = demo_host \<lparr> select := (\<lambda>names. Inr sphere_scene) \<rparr>"

definition sphere_item :: item where
  "sphere_item =
     demo_item \<lparr> properties :=
       [(''work_template'', PTemplate 0), (''publish_template'', PTemplate 1),
        (''object'', PVal (PyStr ''nurbsSphere1'')),
        (''object_name'', PVal (PyStr ''nurbsSphere1'')),
        (''path'', PVal (PyStr ''/proj/publish/cube_nurbsSphere1.v003.abc''))] \<rparr>"

definition sphere_export_cmd :: string where
  "sphere_export_cmd =
     ''AbcExport -j \"-renderableOnly -worldSpace -dataformat ogawa -writeFaceSets -uvWrite '' @
     ''-root nurbsSphere1 -file /proj/publish/cube_nurbsSphere1.v003.abc\"''"

text \<open>
  Two shapes of a run of publish: it raises before any publish action, or it consists of
  events that are no publish actions followed by the run \<open>tail\<close>.
\<close>

definition stops_early :: "'a run \<Rightarrow> bool" where
  "stops_early r = ((\<exists>e. fst r = Inl e) \<and> publish_actions r = [])"

definition reaches :: "'a run \<Rightarrow> 'a run \<Rightarrow> bool" where
  "reaches r tail =
     (\<exists>pre. filter is_publish_action pre = [] \<and> r = (fst tail, pre @ snd tail))"

text \<open>The same host when both export commands raise, and the runs of the two hooks there.\<close>

definition failing_host :: host where
  "failing_host =
     sphere_host \<lparr> mel_eval := (\<lambda>cmd. Some ''AbcExport failed''),
                   file_exportSelected := (\<lambda>p. Some ''write failed'') \<rparr>"

definition sphere_prefix :: "event list" where
  "sphere_prefix =
     [EnsureFolderExists ''/proj/publish'', Select [''nurbsSphere1''],
      MayaWarning ''No mesh shapes found under the selected nodes.'', Print ''[]'']"

definition failing_geo_run :: "unit run" where
  "failing_geo_run =
     (Inr (), sphere_prefix @
              [LogDebug (''Executing command: '' @ sphere_export_cmd),
               MelEval sphere_export_cmd,
               LogError ''Failed to export Geometry: AbcExport failed''])"

text \<open>
  An item whose context has no task, and the run of the geometry hook on it in the host
  where every call returns; a host whose base-class publish raises.
\<close>

definition taskless_item :: item where
  "taskless_item = sphere_item \<lparr> item_context := demo_context \<lparr> task := None \<rparr> \<rparr>"

definition taskless_geo_run :: "unit run" where
  "taskless_geo_run =
     (Inl (TypeError ''NoneType object is not subscriptable''),
      sphere_prefix @
      [LogDebug (''Executing command: '' @ sphere_export_cmd), MelEval sphere_export_cmd,
       BasePublish ''Alembic Cache'', Select [''nurbsSphere1'']])"

definition unregistered_host :: host where
  "unregistered_host = sphere_host \<lparr> base_publish := (\<lambda>i. Some ''register_publish failed'') \<rparr>"

definition successful_geo_run :: "unit run" where
  "successful_geo_run =
     (Inr (), sphere_prefix @
              [LogDebug (''Executing command: '' @ sphere_export_cmd),
               MelEval sphere_export_cmd, BasePublish ''Alembic Cache'',
               Select [''nurbsSphere1''], status_update (PyInt 77)])"

text \<open>
  The session item of the geometry hook: it has both templates and a path, and no
  \<open>object_name\<close>, which only the object items carry.
\<close>

definition session_item :: item where
  "session_item =
     \<lparr> item_type = ''maya.session.geometries'',
       properties =
         [(''work_template'', PTemplate 0), (''publish_template'', PTemplate 1),
          (''path'', PVal (PyStr ''/proj/work/cube.v003.ma''))],
       item_context = demo_context,
       parent_properties = [] \<rparr>"

text \<open>
  A host whose work template does not fit the session path: \<open>get_fields\<close> raises, as
  the Toolkit's does for a scene saved outside the work area.
\<close>

definition offtemplate_host :: host where
  "offtemplate_host =
     sphere_host \<lparr> templates :=
       (\<lambda>n. demo_template \<lparr> get_fields := (\<lambda>p. Inl ''path does not match the template'') \<rparr>) \<rparr>"

section \<open>upload\_version.py: the image sequence branch of publish\<close>

text \<open>
  \<open>s.replace(old, new)\<close> for a non-empty \<open>old\<close>, and the slice \<open>s[-8:-4]\<close>.
\<close>

function py_replace :: "string \<Rightarrow> string \<Rightarrow> string \<Rightarrow> string" where
  "py_replace old new [] = []"
| "py_replace old new (x # xs) =
     (if old \<noteq> [] \<and> prefix old (x # xs)
      then new @ py_replace old new (drop (length old) (x # xs))
      else x # py_replace old new xs)"
  by pat_completeness auto
termination
  by (relation "measure (\<lambda>(old, new, s). length s)") (auto simp: neq_Nil_conv)

definition slice_m8_m4 :: "string \<Rightarrow> string" where
  "slice_m8_m4 s = take ((length s - 4) - (length s - 8)) (drop (length s - 8) s)"

text \<open>
  The names bound at module level in upload\_version.py: seven imported modules,
  \<open>HookBaseClass\<close> and the class. The module has no \<open>def\<close> at top level and imports
  neither \<open>subprocess\<close>, \<open>sys\<close> nor \<open>platform\<close>.
\<close>

datatype upload_binding = Imported_module | Hook_class

definition upload_version_namespace :: "(string \<times> upload_binding) list" where
  "upload_version_namespace =
     [(''os'', Imported_module), (''glob'', Imported_module), (''pprint'', Imported_module),
      (''sgtk'', Imported_module), (''six'', Imported_module), (''mel'', Imported_module),
      (''cmds'', Imported_module), (''HookBaseClass'', Hook_class),
      (''UploadVersionPlugin'', Hook_class)]"

definition global_name :: "string \<Rightarrow> exc + upload_binding" where
  "global_name name =
     (case map_of upload_version_namespace name of
        None \<Rightarrow> Inl (NameError name)
      | Some b \<Rightarrow> Inr b)"

text \<open>
  \<open>name()\<close> for a global name: a module is not callable, and a hook class cannot be
  instantiated without its parent.
\<close>

definition call_without_arguments :: "upload_binding \<Rightarrow> exc + string" where
  "call_without_arguments b =
     (case b of
        Imported_module \<Rightarrow> Inl (TypeError ''module object is not callable'')
      | Hook_class \<Rightarrow> Inl (TypeError ''missing required positional argument''))"

text \<open>What the upload hook asks of its host.\<close>

record upload_host =
  upload_templates :: "nat \<Rightarrow> template"
  get_template_by_name :: "pyval \<Rightarrow> property"
  currentTimeUnitToFPS :: string
  environ_PATH :: "string option"
  platform_system :: string
  popen_stdout :: "string \<Rightarrow> string list"
  popen_wait :: "string \<Rightarrow> int"

definition truthy_property :: "property \<Rightarrow> bool" where
  "truthy_property p =
     (case p of
        PVal v \<Rightarrow> truthy v
      | PNames ns \<Rightarrow> ns \<noteq> []
      | PDict d \<Rightarrow> d \<noteq> []
      | PTemplate n \<Rightarrow> True)"

definition upload_template :: "upload_host \<Rightarrow> property \<Rightarrow> string \<Rightarrow> exc + template" where
  "upload_template uh p method =
     (case p of
        PTemplate n \<Rightarrow> Inr (upload_templates uh n)
      | _ \<Rightarrow> Inl (AttributeError (''object has no attribute '' @ method)))"

text \<open>
  \<open>get_dailies_template(settings, item)\<close>, lines 534-553 (\<open>settings[name].value\<close> is a
  subscript of the settings dictionary).
\<close>

definition get_dailies_template :: "upload_host \<Rightarrow> pyval dict \<Rightarrow> property run" where
  "get_dailies_template uh settings =
     andthen (lift (subscript settings ''Dailies Template''))
       (\<lambda>template_name. returns (get_template_by_name uh template_name))"

text \<open>
  \<open>get_dailies_path(settings, item)\<close>, lines 556-614. Its first statement calls the
  global \<open>_session_path\<close>; the texts of the three log lines are given without the
  objects they print.
\<close>

definition get_dailies_path :: "upload_host \<Rightarrow> pyval dict \<Rightarrow> item \<Rightarrow> string option run" where
  "get_dailies_path uh settings it =
     andthen (lift (global_name ''_session_path'')) (\<lambda>session_path.
     andthen (lift (call_without_arguments session_path)) (\<lambda>path.
     let work_template = dict_get (parent_properties it) ''work_template'' (PVal PyNone) in
     andthen (get_dailies_template uh settings) (\<lambda>dailies_template.
     if truthy_property work_template \<and> truthy_property dailies_template then
       andthen (lift (upload_template uh work_template ''validate'')) (\<lambda>wt.
       andthen
         (if validate_path wt path then
            andthen (lift (host_result (get_fields wt path))) (\<lambda>work_fields.
            andthen (lift (subscript (properties it) ''maya.layer_name'')) (\<lambda>layer_name.
            andthen (lift (global_name ''platform'')) (\<lambda>_.
            returns (AList.update ''extension''
                       (PVal (PyStr (if platform_system uh = ''Windows'' then ''avi''
                                     else ''mov'')))
                       (AList.update ''maya.layer_name'' layer_name work_fields)))))
          else returns [])
         (\<lambda>work_fields.
       andthen (lift (upload_template uh dailies_template ''missing_keys'')) (\<lambda>dt.
       if missing_keys dt work_fields \<noteq> [] then
         andthen (emit (LogWarning ''Not enough keys to apply work fields to publish template''))
           (\<lambda>_. returns None)
       else
         andthen (lift (host_result (apply_fields dt work_fields))) (\<lambda>dailies_path.
         andthen (emit (LogDebug (''Used publish template to determine the publish path: '' @
                                  dailies_path)))
           (\<lambda>_. returns (Some dailies_path))))))
     else
       andthen (emit (LogDebug ''dailies_template'')) (\<lambda>_.
       andthen (emit (LogDebug ''work_template'')) (\<lambda>_. returns None)))))"

text \<open>The ffmpeg command line of lines 218-240.\<close>

definition ffmpeg_cmd :: "string \<Rightarrow> string \<Rightarrow> string \<Rightarrow> string \<Rightarrow> string" where
  "ffmpeg_cmd framerate start_number in_sequence out_mov =
     ''ffmpeg -framerate '' @ framerate @ '' -start_number '' @ start_number @ '' '' @
     ''-i \"'' @ in_sequence @ ''\" '' @
     ''-vf \"'' @
       (''format=gbrpf32le,'' @
        ''lut3d='' @ [CHR 0x27] @ ''L'' @ [CHR 0x5C] @ '':/NUKE_CONFIG/ACESCg_to_Rec709.cube'' @
          [CHR 0x27] @ '','' @
        ''scale=1920:1080,format=yuv422p10le'') @ ''\" '' @
     ''-c:v prores_ks -profile:v 3 -pix_fmt yuv422p10le '' @
     ''-movflags +write_colr -color_primaries bt709 -color_trc bt709 -colorspace bt709 '' @
     ''\"'' @ out_mov @ ''\"''"

text \<open>Lines 252-254: each line of the process's output is written and logged.\<close>

fun stream_loop :: "string list \<Rightarrow> unit run" where
  "stream_loop [] = returns ()"
| "stream_loop (line # lines) =
     andthen (lift (global_name ''sys'')) (\<lambda>_.
     andthen (emit (Print line)) (\<lambda>_.
     andthen (emit (LogInfo line)) (\<lambda>_.
     stream_loop lines)))"

text \<open>
  \<open>UploadVersionPlugin.publish\<close>, lines 206-257, for an item for which the condition of
  line 210 holds (\<open>takes_sequence_branch\<close>): the statements of the branch that transcodes
  an image sequence with ffmpeg.
\<close>

definition takes_sequence_branch :: "item \<Rightarrow> bool" where
  "takes_sequence_branch it =
     (map_of (properties it) ''sequence_paths'' \<noteq> None \<and> item_type it = ''maya.session.render'')"

definition upload_publish_sequence :: "upload_host \<Rightarrow> pyval dict \<Rightarrow> item \<Rightarrow> unit run" where
  "upload_publish_sequence uh settings it =
     andthen (lift (subscript (properties it) ''path'')) (\<lambda>_.
     andthen (lift (subscript (properties it) ''publish_data'')) (\<lambda>publish_data.
     andthen (lift (case publish_data of
                      PDict d \<Rightarrow> subscript d ''path''
                    | _ \<Rightarrow> Inl (TypeError ''object is not subscriptable''))) (\<lambda>path_prop.
     andthen (get_dailies_path uh settings it) (\<lambda>dailies_path.
     andthen (lift (case dailies_path of
                      None \<Rightarrow> Inl (AttributeError ''NoneType object has no attribute replace'')
                    | Some p \<Rightarrow> Inr (py_replace ''.avi'' ''.mov'' p))) (\<lambda>uploadPath.
     andthen (lift (subscript (properties it) ''sequence_paths'')) (\<lambda>sequence_paths.
     andthen (lift (case sequence_paths of
                      PNames ps \<Rightarrow> index0 ps
                    | _ \<Rightarrow> Inl (TypeError ''object is not subscriptable''))) (\<lambda>first_path.
     andthen (lift (as_str path_prop)) (\<lambda>path.
     let first = slice_m8_m4 first_path;
         in_sequence = replace_char (CHR 0x5C) CHR ''/'' (py_replace ''####'' ''%04d'' path);
         out_mov = replace_char (CHR 0x5C) CHR ''/'' uploadPath;
         cmd = ffmpeg_cmd (currentTimeUnitToFPS uh) first in_sequence out_mov
     in
     andthen (emit (LogInfo cmd)) (\<lambda>_.
     andthen (lift (case environ_PATH uh of
                      None \<Rightarrow> Inl (KeyError ''PATH'') | Some p \<Rightarrow> Inr p)) (\<lambda>env_path.
     andthen (emit (LogInfo env_path)) (\<lambda>_.
     andthen (lift (global_name ''subprocess'')) (\<lambda>_.
     andthen (emit (Popen cmd)) (\<lambda>_.
     andthen (stream_loop (popen_stdout uh cmd)) (\<lambda>_.
     emit (Print (''Exit code: '' @ str_int (popen_wait uh cmd)))))))))))))))))"

text \<open>The subprocesses a run starts.\<close>

fun is_popen :: "event \<Rightarrow> bool" where
  "is_popen (Popen cmd) = True"
| "is_popen ev = False"

definition spawned :: "'a run \<Rightarrow> event list" where
  "spawned r = filter is_popen (snd r)"

text \<open>A render item with an image sequence, and a host for it.\<close>

definition render_item :: item where
  "render_item =
     \<lparr> item_type = ''maya.session.render'',
       properties =
         [(''path'', PVal (PyStr ''/proj/work/cube.v003.ma'')),
          (''sequence_paths'', PNames [''/proj/render/beauty.0001.exr'',
                                       ''/proj/render/beauty.0002.exr'']),
          (''publish_data'', PDict [(''path'', PVal (PyStr ''/proj/render/beauty.####.exr''))]),
          (''maya.layer_name'', PVal (PyStr ''beauty''))],
       item_context = demo_context,
       parent_properties = [(''work_template'', PTemplate 0)] \<rparr>"

definition render_host :: upload_host where
  "render_host =
     \<lparr> upload_templates = (\<lambda>n. demo_template),
       get_template_by_name = (\<lambda>name. PTemplate 2),
       currentTimeUnitToFPS = ''24.0'',
       environ_PATH = Some ''/usr/bin'',
       platform_system = ''Linux'',
       popen_stdout = (\<lambda>cmd. [''frame=    2 fps=0.0'']),
       popen_wait = (\<lambda>cmd. 0) \<rparr>"

definition render_settings :: "pyval dict" where
  "render_settings =
     [(''File Extensions'', PyStr ''jpeg, jpg, png, mov, mp4, pdf, exr, avi, ma, mb''),
      (''Upload'', PyBool True), (''Link Local File'', PyBool True),
      (''Dailies Template'', PyStr ''maya_shot_dailies'')]"

section \<open>The hook classes\<close>











section \<open>Properties\<close>

subsection \<open>Runs\<close>

lemma fst_andthen:
  "fst (andthen m f) = (case fst m of Inl e \<Rightarrow> Inl e | Inr x \<Rightarrow> fst (f x))"
  by (auto simp: andthen_def split: prod.splits sum.splits)

lemma snd_andthen:
  "snd (andthen m f) = snd m @ (case fst m of Inl e \<Rightarrow> [] | Inr x \<Rightarrow> snd (f x))"
  by (auto simp: andthen_def split: prod.splits sum.splits)

subsection \<open>get\_ui\_settings\<close>

text \<open>
  Claim C10. The condition \<open>'TEXTURE' or 'SHADING' in step_name\<close> has the value
  \<open>'TEXTURE'\<close> whatever its right operand is, so for every context and every dictionary
  of the base class \<open>get_ui_settings\<close> returns a dictionary in which Write Face Sets,
  Write Uvs, Write Uv Sets and Write Color Sets are all \<open>True\<close>; the result is the same
  for any two contexts, whatever their step names and entity types.
\<close>

theorem get_ui_settings_always_true:
  "step_condition shading_in_step = Inr (PyStr ''TEXTURE'') \<and>
   (\<exists>u. get_ui_settings base_ui ctx = Inr u \<and>
        map_of u ''Write Face Sets'' = Some (PyBool True) \<and>
        map_of u ''Write Uvs'' = Some (PyBool True) \<and>
        map_of u ''Write Uv Sets'' = Some (PyBool True) \<and>
        map_of u ''Write Color Sets'' = Some (PyBool True)) \<and>
   get_ui_settings base_ui ctx = get_ui_settings base_ui ctx'"
  by (simp add: step_condition_def py_or_def get_ui_settings_def Let_def update_conv')

subsection \<open>Animation detection\<close>

lemma keyframe_loop_ex: "keyframe_loop sc as = list_ex (\<lambda>a. 0 < keyframeCount sc a) as"
  by (induction as) auto

lemma nodos_loop_ex: "nodos_loop sc ns = list_ex (animated_node sc) ns"
  by (induction ns)
     (auto simp: animated_node_def keyframe_loop_ex or_empty_def split: option.splits)

text \<open>
  Claim C7, as stated, fails: for a node without descendants \<open>listRelatives\<close> returns
  \<open>None\<close>, the guard \<open>if nodos != None\<close> skips the whole traversal and the function
  returns \<open>False\<close>, also when the node itself is a transform with keyframes. The keyed
  null of \<open>keyed_null_scene\<close> is animated and is reported as not animated.
\<close>

theorem geo_has_animation_leaf_counterexample:
  "node_or_descendant_animated keyed_null_scene ''|null1'' \<and>
   \<not> priv_geo_has_animation keyed_null_scene ''|null1''"
  by (simp add: node_or_descendant_animated_def descendants_def animated_node_def or_empty_def
        priv_geo_has_animation_def keyed_null_scene_def empty_scene_def)

text \<open>
  Claim C7, amended. \<open>_geo_has_animation(node)\<close> returns \<open>True\<close> if and only if the node
  has at least one descendant and the node or one of its descendants is a transform with
  a keyed animatable attribute or a mesh whose \<open>inMesh\<close> has an incoming connection; for
  a node without descendants it returns \<open>False\<close>.
\<close>

theorem geo_has_animation_needs_descendants:
  "priv_geo_has_animation sc node \<longleftrightarrow>
     (listRelatives_ad sc node \<noteq> None \<and> node_or_descendant_animated sc node)"
  by (auto simp: priv_geo_has_animation_def node_or_descendant_animated_def descendants_def
        nodos_loop_ex or_empty_def split: option.splits)

theorem geo_has_animation_needs_descendants_witness:
  "priv_geo_has_animation keyed_parent_scene ''|null1''"
  using geo_has_animation_needs_descendants [of keyed_parent_scene "''|null1''"]
  by (simp add: node_or_descendant_animated_def descendants_def animated_node_def or_empty_def
        keyed_parent_scene_def keyed_null_scene_def empty_scene_def)

subsection \<open>updateConfig.main\<close>

text \<open>
  Claim C8, as stated, fails: \<open>main\<close> reads \<open>os.environ['UPDATECONFIGKEY']\<close> first, and
  in an environment that sets BRANCH and NEWCODE but not UPDATECONFIGKEY it raises
  KeyError and performs no remote write at all.
\<close>

theorem main_missing_key_counterexample:
  "fst (main [''BRANCH'' \<mapsto> ''main'', ''NEWCODE'' \<mapsto> ''v1.0.0''] None None)
     = Inl (KeyError ''UPDATECONFIGKEY'') \<and>
   writes (main [''BRANCH'' \<mapsto> ''main'', ''NEWCODE'' \<mapsto> ''v1.0.0''] None None) = []"
  by (simp add: main_def lift_def andthen_def writes_def)

text \<open>
  Claim C8, amended. When the environment sets UPDATECONFIGKEY, BRANCH and NEWCODE and the
  API handle is constructed, \<open>main\<close> performs exactly one remote write, the update of the
  PipelineConfiguration record 2542, whose descriptor is the concatenation of the fixed
  prefix, BRANCH, the fixed middle part and NEWCODE; the write is a function of BRANCH and
  NEWCODE alone, so two such runs with equal variables write the same record and value.
\<close>

theorem main_one_write:
  assumes "environ ''UPDATECONFIGKEY'' = Some api_key"
      and "environ ''BRANCH'' = Some branch"
      and "environ ''NEWCODE'' = Some newcode"
  shows "writes (main environ None upd) =
           [SgUpdate ''PipelineConfiguration'' (PyInt 2542)
              [(''descriptor'',
                ''sgtk:descriptor:git_branch?branch='' @ branch @
                ''&path=https://github.com/Dps-CCV/DPS_CONFIG_DEV.git&version='' @ newcode)]]"
  using assms
  by (simp add: main_def lift_def andthen_def writes_def perform_def descriptor_def
        split: option.splits)

theorem main_one_write_witness:
  "writes (main [''UPDATECONFIGKEY'' \<mapsto> ''secret'', ''BRANCH'' \<mapsto> ''main'',
                 ''NEWCODE'' \<mapsto> ''v1.0.0''] None None) =
     [SgUpdate ''PipelineConfiguration'' (PyInt 2542)
        [(''descriptor'',
          ''sgtk:descriptor:git_branch?branch=main&path=https://github.com/Dps-CCV/DPS_CONFIG_DEV.git&version=v1.0.0'')]]"
  using main_one_write [of "[''UPDATECONFIGKEY'' \<mapsto> ''secret'', ''BRANCH'' \<mapsto> ''main'',
                 ''NEWCODE'' \<mapsto> ''v1.0.0'']" "''secret''" "''main''" "''v1.0.0''" None]
  by simp

subsection \<open>Face sets\<close>

lemma fst_returns [simp]: "fst (returns x) = Inr x"
  by (simp add: returns_def)

lemma snd_returns [simp]: "snd (returns x) = []"
  by (simp add: returns_def)

lemma calls_andthen:
  "force_element_calls (andthen m f) =
     force_element_calls m @
     (case fst m of Inl e \<Rightarrow> [] | Inr x \<Rightarrow> force_element_calls (f x))"
  by (auto simp: force_element_calls_def snd_andthen split: sum.splits)

lemma calls_returns [simp]: "force_element_calls (returns x) = []"
  by (simp add: force_element_calls_def)

lemma fst_print_when [simp]: "fst (print_when v msgs) = Inr ()"
  by (simp add: print_when_def)

lemma calls_print_when [simp]: "force_element_calls (print_when v msgs) = []"
  by (induction msgs) (auto simp: force_element_calls_def print_when_def)

lemma fst_assign [simp]: "fst (priv_assign_faces_to_sg sc shape faces sg) = Inr ()"
  by (auto simp: priv_assign_faces_to_sg_def try_except_def perform_def emit_def
           split: option.splits)

lemma calls_assign:
  "force_element_calls (priv_assign_faces_to_sg sc shape faces sg) =
     (if faces = {} then [] else [SetsForceElement (face_components shape faces) sg])"
  by (auto simp: priv_assign_faces_to_sg_def try_except_def perform_def emit_def
           force_element_calls_def split: option.splits)

lemma remove_targets_loop_quiet:
  "fst (remove_targets_loop sc sg ts) = Inr () \<and>
   force_element_calls (remove_targets_loop sc sg ts) = []"
  by (induction ts)
     (auto simp: snd_andthen fst_andthen try_except_def perform_def returns_def
                 force_element_calls_def split: option.splits sum.splits)

lemma fst_remove [simp]: "fst (priv_remove_object_level_membership sc shape sg) = Inr ()"
  by (simp add: priv_remove_object_level_membership_def remove_targets_loop_quiet
        del: remove_targets_loop.simps)

lemma calls_remove [simp]:
  "force_element_calls (priv_remove_object_level_membership sc shape sg) = []"
  by (simp add: priv_remove_object_level_membership_def remove_targets_loop_quiet
        del: remove_targets_loop.simps)

lemma convert_loop_empty: "convert_loop sc shape rm sgs {} = returns {}"
  by (cases sgs) auto

lemma convert_loop_first:
  "fst (convert_loop sc shape rm (sg # rest) remaining) = Inr {} \<and>
   force_element_calls (convert_loop sc shape rm (sg # rest) remaining) =
     (if remaining = {} then [] else [SetsForceElement (face_components shape remaining) sg])"
  by (auto simp: calls_andthen fst_andthen calls_assign convert_loop_empty Let_def)

text \<open>
  The loop of lines 816-824 on the collector's output: when the collector lists at least
  one object-level shading group, the only \<open>forceElement\<close> call of the conversion gives
  the first of them every face of \<open>0 .. face_count - 1\<close> that the collector has not
  reported as assigned per face, and \<open>remaining\<close> is empty afterwards, so the later
  groups receive nothing.
\<close>

lemma convert_calls_of_collected:
  assumes "nodeType sc shape_long = ''mesh''"
      and "priv_collect_face_assignments_for_shape sc shape_long
             (priv_connected_shading_groups sc shape_long)
           = (assigned_faces_all, per_sg_faces, sg # rest, face_count)"
  shows "force_element_calls
           (priv_convert_object_level_materials_to_face_sets sc shape_long rm verbose) =
         (if {0..<face_count} - assigned_faces_all = {} then []
          else [SetsForceElement
                  (face_components shape_long ({0..<face_count} - assigned_faces_all)) sg])
       \<and> fst (convert_loop sc shape_long rm (sg # rest)
                ({0..<face_count} - assigned_faces_all)) = Inr {}"
proof -
  have sgs: "priv_connected_shading_groups sc shape_long \<noteq> []"
    using assms(2)
    by (auto simp: priv_collect_face_assignments_for_shape_def Let_def)
  show ?thesis
    using assms sgs
    by (simp add: priv_convert_object_level_materials_to_face_sets_def Let_def calls_andthen
          fst_andthen convert_loop_first del: convert_loop.simps)
qed

text \<open>
  Claim C9. The claim is what the docstring of the conversion promises (``This preserves
  any existing per-face overrides''), and the code does it for the members that
  \<open>cmds.sets\<close> lists by the shape's long path, also when they are ranges that
  \<open>filterExpand\<close> expands: on \<open>range_cube_scene\<close> faces 0 and 1 stay with \<open>sgA\<close>, the
  first object-level group \<open>sgB\<close> receives face 2 and \<open>sgC\<close> nothing. The test of line
  736 misses every member listed by a shorter name: its second half asks for a member
  ending in \<open>.f]\<close>, which no face component does. On \<open>short_cube_scene\<close>, where \<open>sgA\<close>
  holds face 0 of the cube as \<open>pCube1.f[0]\<close>, the collector reports no face as assigned,
  and the conversion force-assigns faces 0, 1 and 2 to \<open>sgB\<close>: face 0, already assigned
  per face, is reassigned.
\<close>

theorem convert_reassigns_short_named_faces:
  "force_element_calls
     (priv_convert_object_level_materials_to_face_sets range_cube_scene
        ''|pCube1|pCubeShape1'' True True) =
     [SetsForceElement [''|pCube1|pCubeShape1.f[2]''] ''sgB''] \<and>
   priv_members_for_sg short_cube_scene ''sgA'' = [''pCube1.f[0]''] \<and>
   ls_long short_cube_scene ''pCube1.f[0]'' = Some [''|pCube1|pCubeShape1.f[0]''] \<and>
   is_face_member ''|pCube1|pCubeShape1'' ''pCube1.f[0]'' = False \<and>
   is_face_member ''|pCube1|pCubeShape1'' ''pCubeShape1.f[0]'' = False \<and>
   priv_collect_face_assignments_for_shape short_cube_scene ''|pCube1|pCubeShape1''
     (priv_connected_shading_groups short_cube_scene ''|pCube1|pCubeShape1'') =
     ({}, [(''sgA'', {}), (''sgB'', {}), (''sgC'', {})], [''sgB'', ''sgC''], 3) \<and>
   force_element_calls
     (priv_convert_object_level_materials_to_face_sets short_cube_scene
        ''|pCube1|pCubeShape1'' True True) =
     [SetsForceElement [''|pCube1|pCubeShape1.f[0]'', ''|pCube1|pCubeShape1.f[1]'',
                        ''|pCube1|pCubeShape1.f[2]''] ''sgB'']"
  by code_simp

subsection \<open>The shape of a publish run\<close>

lemma andthen_cases:
  "andthen m f =
     (case m of (Inl e, t) \<Rightarrow> (Inl e, t) | (Inr x, t) \<Rightarrow> (fst (f x), t @ snd (f x)))"
  by (auto simp: andthen_def split: prod.splits sum.splits)

lemma actions_andthen:
  "publish_actions (andthen m f) =
     publish_actions m @ (case fst m of Inl e \<Rightarrow> [] | Inr x \<Rightarrow> publish_actions (f x))"
  by (auto simp: publish_actions_def snd_andthen split: sum.splits)

lemma actions_pair [simp]: "publish_actions (r, evs) = filter is_publish_action evs"
  by (simp add: publish_actions_def)

lemma actions_emit [simp]:
  "publish_actions (emit ev) = (if is_publish_action ev then [ev] else [])"
  by (simp add: emit_def)

lemma actions_perform [simp]:
  "publish_actions (perform ev outcome) = (if is_publish_action ev then [ev] else [])"
  by (simp add: perform_def split: option.splits)

lemma actions_returns [simp]: "publish_actions (returns x) = []"
  by (simp add: publish_actions_def)

lemma actions_lift [simp]: "publish_actions (lift r) = []"
  by (simp add: publish_actions_def lift_def)

lemma fst_lift [simp]: "fst (lift r) = r"
  by (simp add: lift_def)

lemma snd_lift [simp]: "snd (lift r) = []"
  by (simp add: lift_def)

lemma actions_select [simp]: "publish_actions (select_run h names) = []"
  by (simp add: publish_actions_def select_run_def)

lemma actions_print_when [simp]: "publish_actions (print_when v msgs) = []"
  by (induction msgs) (auto simp: publish_actions_def print_when_def)

lemma actions_selected_shapes [simp]:
  "publish_actions (priv_get_selected_mesh_shapes sc) = []"
  by (simp add: priv_get_selected_mesh_shapes_def Let_def actions_andthen split: sum.splits)

lemma fst_selected_shapes: "\<exists>shapes. fst (priv_get_selected_mesh_shapes sc) = Inr shapes"
  by (simp add: priv_get_selected_mesh_shapes_def Let_def fst_andthen emit_def)

lemma call_global_undefined:
  "call_global sc ''convert_object_level_materials_to_face_sets'' s rm v =
     raises (NameError ''convert_object_level_materials_to_face_sets'')"
  by (simp add: call_global_def publish_object_geo_namespace_def)

lemma bake_loop_raises:
  "shapes \<noteq> [] \<Longrightarrow>
   bake_loop sc rm v shapes = raises (NameError ''convert_object_level_materials_to_face_sets'')"
  by (cases shapes) (simp_all add: call_global_undefined andthen_def raises_def)

lemma bake_raises:
  assumes "fst (priv_get_selected_mesh_shapes sc) = Inr shapes" and "shapes \<noteq> []"
  shows "bake_facesets_for_selection sc rm v =
           (Inl (NameError ''convert_object_level_materials_to_face_sets''),
            snd (priv_get_selected_mesh_shapes sc))"
  using assms
  by (cases "priv_get_selected_mesh_shapes sc")
     (simp add: bake_facesets_for_selection_def andthen_cases bake_loop_raises raises_def)

lemma actions_bake [simp]: "publish_actions (bake_facesets_for_selection sc rm v) = []"
proof -
  obtain shapes where s: "fst (priv_get_selected_mesh_shapes sc) = Inr shapes"
    using fst_selected_shapes by blast
  show ?thesis
  proof (cases "shapes = []")
    case True
    with s show ?thesis
      by (simp add: bake_facesets_for_selection_def actions_andthen)
  next
    case False
    from bake_raises [OF s False, of rm v] show ?thesis
      using actions_selected_shapes [of sc] by (simp add: publish_actions_def)
  qed
qed

lemma andthen_shape:
  assumes "publish_actions m = []"
      and "\<And>x. fst m = Inr x \<Longrightarrow> stops_early (f x) \<or> (\<exists>tail. Q tail \<and> reaches (f x) tail)"
  shows "stops_early (andthen m f) \<or> (\<exists>tail. Q tail \<and> reaches (andthen m f) tail)"
proof (cases m)
  case (Pair r t)
  show ?thesis
  proof (cases r)
    case (Inl e)
    with Pair assms(1) have "stops_early (andthen m f)"
      by (simp add: andthen_cases stops_early_def)
    then show ?thesis ..
  next
    case (Inr x)
    with Pair have "fst m = Inr x" by simp
    from assms(2) [OF this] show ?thesis
    proof
      assume "stops_early (f x)"
      with Pair Inr assms(1) show ?thesis
        by (auto simp: andthen_cases stops_early_def publish_actions_def)
    next
      assume "\<exists>tail. Q tail \<and> reaches (f x) tail"
      then obtain tail pre where q: "Q tail" and p: "filter is_publish_action pre = []"
        and fx: "f x = (fst tail, pre @ snd tail)"
        by (auto simp: reaches_def)
      from Pair Inr assms(1) have t: "filter is_publish_action t = []"
        by (simp add: publish_actions_def)
      have "andthen m f = (fst tail, (t @ pre) @ snd tail)"
        using Pair Inr fx by (simp add: andthen_cases)
      moreover have "filter is_publish_action (t @ pre) = []"
        using t p by simp
      ultimately have "reaches (andthen m f) tail"
        unfolding reaches_def by blast
      with q show ?thesis by blast
    qed
  qed
qed

lemma reaches_self: "reaches r r"
  unfolding reaches_def by (rule exI [of _ "[]"]) simp

lemma actions_begin [simp]: "publish_actions (geo_publish_begin h st it) = []"
  by (simp add: geo_publish_begin_def actions_andthen split: sum.splits)

lemma actions_root [simp]:
  "priv_get_root_from_first_mesh sc = Some r \<Longrightarrow> publish_actions r = []"
  by (auto simp: priv_get_root_from_first_mesh_def split: list.splits option.splits)

lemma actions_target:
  assumes "geo_publish_target h sc ctx it = Some r"
  shows "publish_actions r = []"
proof (cases "item_type it \<noteq> ''maya.session.geometries''")
  case True
  with assms show ?thesis
    by (auto simp: geo_publish_target_def actions_andthen split: sum.splits)
next
  case False
  with assms obtain root where
    root: "priv_get_root_from_first_mesh sc = Some root" and
    r: "r = andthen root (\<lambda>root.
                   returns (sc,
                            (case root of None \<Rightarrow> ParentOther None | Some n \<Rightarrow> ParentName n),
                            [], ''Session Alembic Cache''))"
    by (auto simp: geo_publish_target_def split: option.splits)
  from actions_root [OF root] show ?thesis
    unfolding r by (simp add: actions_andthen split: sum.splits)
qed

lemma geo_publish_shape:
  assumes "geo_publish h sc ctx st it = Some r"
  shows "stops_early r \<or>
         (\<exists>tail. (\<exists>ty cmd. tail = geo_export_and_finish h it ty (ls_selection sc) cmd) \<and>
                 reaches r tail)"
proof (cases "geo_publish_begin h st it")
  case (Pair b t)
  show ?thesis
  proof (cases b)
    case (Inl e)
    with Pair assms have "r = (Inl e, t)"
      by (simp add: geo_publish_def andthen_opt_def)
    moreover from Pair Inl have "filter is_publish_action t = []"
      using actions_begin [of h st it] by (simp add: publish_actions_def)
    ultimately show ?thesis
      by (simp add: stops_early_def publish_actions_def)
  next
    case (Inr x)
    obtain publish_path alembic_args where x: "x = (publish_path, alembic_args)"
      by (cases x)
    from assms Pair Inr x obtain target where
      tg: "geo_publish_target h sc ctx it = Some target"
      by (auto simp: geo_publish_def andthen_opt_def split: option.splits)
    let ?rest = "andthen target (\<lambda>(sc', parentNode, root_args, publish_type).
              andthen (lift (geo_has_animation_of h sc' parentNode)) (\<lambda>animated.
              geo_export_and_finish h it publish_type (ls_selection sc)
                (abc_export_cmd sc' animated (alembic_args @ root_args) publish_path)))"
    have r: "r = andthen (geo_publish_begin h st it) (\<lambda>_. ?rest)"
      using assms Pair Inr x tg
      by (cases ?rest) (simp add: geo_publish_def andthen_opt_def andthen_cases)
    have rest: "stops_early ?rest \<or>
          (\<exists>tail. (\<exists>ty cmd. tail = geo_export_and_finish h it ty (ls_selection sc) cmd) \<and>
                  reaches ?rest tail)"
    proof (rule andthen_shape)
      show "publish_actions target = []"
        using tg by (rule actions_target)
    next
      fix y assume "fst target = Inr y"
      obtain sc' parentNode root_args publish_type where
        y: "y = (sc', parentNode, root_args, publish_type)"
        by (cases y)
      have "stops_early
              (andthen (lift (geo_has_animation_of h sc' parentNode)) (\<lambda>animated.
                 geo_export_and_finish h it publish_type (ls_selection sc)
                   (abc_export_cmd sc' animated (alembic_args @ root_args) publish_path)))
            \<or> (\<exists>tail. (\<exists>ty cmd. tail = geo_export_and_finish h it ty (ls_selection sc) cmd) \<and>
                  reaches
                    (andthen (lift (geo_has_animation_of h sc' parentNode)) (\<lambda>animated.
                       geo_export_and_finish h it publish_type (ls_selection sc)
                         (abc_export_cmd sc' animated (alembic_args @ root_args) publish_path)))
                    tail)"
      proof (rule andthen_shape)
        show "publish_actions (lift (geo_has_animation_of h sc' parentNode)) = []"
          by simp
      next
        fix animated
        show "stops_early
                (geo_export_and_finish h it publish_type (ls_selection sc)
                   (abc_export_cmd sc' animated (alembic_args @ root_args) publish_path))
              \<or> (\<exists>tail. (\<exists>ty cmd. tail = geo_export_and_finish h it ty (ls_selection sc) cmd) \<and>
                    reaches
                      (geo_export_and_finish h it publish_type (ls_selection sc)
                         (abc_export_cmd sc' animated (alembic_args @ root_args) publish_path))
                      tail)"
          using reaches_self by blast
      qed
      with y show "stops_early (case y of (sc', parentNode, root_args, publish_type) \<Rightarrow>
              andthen (lift (geo_has_animation_of h sc' parentNode)) (\<lambda>animated.
              geo_export_and_finish h it publish_type (ls_selection sc)
                (abc_export_cmd sc' animated (alembic_args @ root_args) publish_path)))
            \<or> (\<exists>tail. (\<exists>ty cmd. tail = geo_export_and_finish h it ty (ls_selection sc) cmd) \<and>
                  reaches (case y of (sc', parentNode, root_args, publish_type) \<Rightarrow>
              andthen (lift (geo_has_animation_of h sc' parentNode)) (\<lambda>animated.
              geo_export_and_finish h it publish_type (ls_selection sc)
                (abc_export_cmd sc' animated (alembic_args @ root_args) publish_path))) tail)"
        by simp
    qed
    show ?thesis
      unfolding r
    proof (rule andthen_shape)
      show "publish_actions (geo_publish_begin h st it) = []"
        by simp
    next
      fix y
      show "stops_early ?rest \<or>
          (\<exists>tail. (\<exists>ty cmd. tail = geo_export_and_finish h it ty (ls_selection sc) cmd) \<and>
                  reaches ?rest tail)"
        by (rule rest)
    qed
  qed
qed

lemma filter_actions_prints [simp]:
  "filter is_publish_action (map (\<lambda>x. Print (f x)) xs) = []"
  by (induction xs) auto

lemma actions_shading_groups [simp]:
  "publish_actions (priv_get_shading_groups_from_object sc obj) = []"
  by (simp add: priv_get_shading_groups_from_object_def Let_def)

lemma shape_self:
  "Q r \<Longrightarrow> stops_early r \<or> (\<exists>tail. Q tail \<and> reaches r tail)"
  using reaches_self by blast

lemma shader_publish_shape:
  "stops_early (shader_publish h sc it) \<or>
   (\<exists>tail. (\<exists>p. tail = shader_export_and_finish h it (ls_selection sc) p) \<and>
           reaches (shader_publish h sc it) tail)"
  unfolding shader_publish_def Let_def
  apply (rule andthen_shape, simp)+
  apply (rule shape_self)
  apply blast
  done

lemma is_write_action: "is_write ev \<Longrightarrow> is_publish_action ev"
  by (cases ev) auto

lemma filter_write_quiet:
  "filter is_publish_action pre = [] \<Longrightarrow> filter is_write pre = []"
  by (induction pre) (auto split: if_splits dest: is_write_action)

lemma reaches_fst: "reaches r tail \<Longrightarrow> fst r = fst tail"
  by (auto simp: reaches_def)

lemma reaches_writes: "reaches r tail \<Longrightarrow> writes r = writes tail"
  by (auto simp: reaches_def writes_def filter_write_quiet)

lemma reaches_actions: "reaches r tail \<Longrightarrow> publish_actions r = publish_actions tail"
  by (auto simp: reaches_def publish_actions_def)

lemma quiet_mem:
  "filter is_publish_action pre = [] \<Longrightarrow> is_publish_action ev \<Longrightarrow> ev \<notin> set pre"
  by (induction pre) (auto split: if_splits)

lemma reaches_mem:
  "reaches r tail \<Longrightarrow> is_publish_action ev \<Longrightarrow> ev \<in> set (snd r) \<Longrightarrow> ev \<in> set (snd tail)"
  by (auto simp: reaches_def dest: quiet_mem)

lemma stops_early_mem:
  "stops_early r \<Longrightarrow> is_publish_action ev \<Longrightarrow> ev \<notin> set (snd r)"
  by (auto simp: stops_early_def publish_actions_def dest: quiet_mem)

lemma reaches_snd: "reaches r tail \<Longrightarrow> \<exists>pre. snd r = pre @ snd tail"
  by (auto simp: reaches_def)

subsection \<open>The export and what follows it\<close>

lemma publish_finish_events:
  "set (snd (publish_finish h it ty cur)) \<subseteq>
     {BasePublish ty, Select cur} \<union> {ev. \<exists>tid. ev = status_update tid}"
  by (auto simp: publish_finish_def snd_andthen perform_def select_run_def status_update_def
           split: sum.splits option.splits)

lemma publish_finish_ok:
  assumes "\<forall>i. base_publish h i = None"
      and "select h cur = Inr s"
      and "subscript_opt (task (item_context it)) ''id'' = Inr tid"
  shows "snd (publish_finish h it ty cur) = [BasePublish ty, Select cur, status_update tid]"
  using assms
  by (simp add: publish_finish_def snd_andthen fst_andthen perform_def select_run_def
        host_result_def status_update_def split: option.splits)

lemma geo_export_fails:
  "mel_eval h cmd = Some msg \<Longrightarrow>
   geo_export_and_finish h it ty cur cmd =
     (Inr (), [LogDebug (''Executing command: '' @ cmd), MelEval cmd,
               LogError (''Failed to export Geometry: '' @ msg)])"
  by (simp add: geo_export_and_finish_def andthen_def try_except_def emit_def perform_def
        returns_def)

lemma geo_export_ok:
  "mel_eval h cmd = None \<Longrightarrow>
   geo_export_and_finish h it ty cur cmd =
     (fst (publish_finish h it ty cur),
      [LogDebug (''Executing command: '' @ cmd), MelEval cmd] @ snd (publish_finish h it ty cur))"
  by (cases "publish_finish h it ty cur")
     (simp add: geo_export_and_finish_def andthen_def try_except_def emit_def perform_def
        returns_def)

lemma geo_export_cmd:
  "MelEval c \<in> set (snd (geo_export_and_finish h it ty cur cmd)) \<Longrightarrow> c = cmd"
  using publish_finish_events [of h it ty cur]
  by (cases "mel_eval h cmd") (auto simp: geo_export_ok geo_export_fails status_update_def)

lemma shader_export_fails:
  "file_exportSelected h p = Some msg \<Longrightarrow>
   shader_export_and_finish h it cur p =
     (Inr (), [LogDebug ''Executing shaders export command:'', FileExportSelected p,
               LogError (''Failed to export Shaders: '' @ msg)])"
  by (simp add: shader_export_and_finish_def andthen_def try_except_def emit_def perform_def
        returns_def)

lemma shader_export_ok:
  "file_exportSelected h p = None \<Longrightarrow>
   shader_export_and_finish h it cur p =
     (fst (publish_finish h it ''Maya Shading Network'' cur),
      [LogDebug ''Executing shaders export command:'', FileExportSelected p] @
      snd (publish_finish h it ''Maya Shading Network'' cur))"
  by (cases "publish_finish h it ''Maya Shading Network'' cur")
     (simp add: shader_export_and_finish_def andthen_def try_except_def emit_def perform_def
        returns_def)

lemma shader_export_path:
  "FileExportSelected c \<in> set (snd (shader_export_and_finish h it cur p)) \<Longrightarrow> c = p"
  using publish_finish_events [of h it "''Maya Shading Network''" cur]
  by (cases "file_exportSelected h p")
     (auto simp: shader_export_ok shader_export_fails status_update_def)

lemma geo_publish_export:
  assumes "geo_publish h sc ctx st it = Some r" and "MelEval cmd \<in> set (snd r)"
  shows "\<exists>ty. reaches r (geo_export_and_finish h it ty (ls_selection sc) cmd)"
proof -
  from geo_publish_shape [OF assms(1)] stops_early_mem [of r "MelEval cmd"] assms(2)
  obtain ty cmd' where t: "reaches r (geo_export_and_finish h it ty (ls_selection sc) cmd')"
    by auto
  from reaches_mem [OF t _ assms(2)] have "cmd = cmd'"
    by (auto dest: geo_export_cmd)
  with t show ?thesis by blast
qed

lemma shader_publish_export:
  assumes "FileExportSelected p \<in> set (snd (shader_publish h sc it))"
  shows "reaches (shader_publish h sc it) (shader_export_and_finish h it (ls_selection sc) p)"
proof -
  from shader_publish_shape [of h sc it]
    stops_early_mem [of "shader_publish h sc it" "FileExportSelected p"] assms
  obtain p' where
    t: "reaches (shader_publish h sc it) (shader_export_and_finish h it (ls_selection sc) p')"
    by auto
  from reaches_mem [OF t _ assms] have "p = p'"
    by (auto dest: shader_export_path)
  with t show ?thesis by blast
qed

text \<open>
  Claim C2. In a run of the geometry hook's publish that executes the export command
  \<open>cmd\<close> and in which that command raises, publish returns, its last three events are
  the debug line, the one attempt at the export and the logged error
  \<open>Failed to export Geometry: <message>\<close>, and the attempt is its only publish action: no
  second attempt, no base-class publish, no remote update. The same holds for the shader
  hook with \<open>cmds.file(..., exportSelected=True)\<close> and \<open>Failed to export Shaders\<close>.
\<close>

theorem publish_export_failure_aborts:
  "(geo_publish h sc ctx st it = Some r \<and> MelEval cmd \<in> set (snd r) \<and>
      mel_eval h cmd = Some msg \<longrightarrow>
      fst r = Inr () \<and> publish_actions r = [MelEval cmd] \<and>
      (\<exists>pre. snd r = pre @ [LogDebug (''Executing command: '' @ cmd), MelEval cmd,
                             LogError (''Failed to export Geometry: '' @ msg)]))
   \<and>
   (FileExportSelected p \<in> set (snd (shader_publish h sc' it')) \<and>
      file_exportSelected h p = Some msg' \<longrightarrow>
      fst (shader_publish h sc' it') = Inr () \<and>
      publish_actions (shader_publish h sc' it') = [FileExportSelected p] \<and>
      (\<exists>pre. snd (shader_publish h sc' it') =
               pre @ [LogDebug ''Executing shaders export command:'', FileExportSelected p,
                      LogError (''Failed to export Shaders: '' @ msg')]))"
proof (intro conjI impI)
  assume a: "geo_publish h sc ctx st it = Some r \<and> MelEval cmd \<in> set (snd r) \<and>
      mel_eval h cmd = Some msg"
  then obtain ty where t: "reaches r (geo_export_and_finish h it ty (ls_selection sc) cmd)"
    using geo_publish_export by blast
  from a have f: "geo_export_and_finish h it ty (ls_selection sc) cmd =
     (Inr (), [LogDebug (''Executing command: '' @ cmd), MelEval cmd,
               LogError (''Failed to export Geometry: '' @ msg)])"
    by (simp add: geo_export_fails)
  from reaches_fst [OF t] f show "fst r = Inr ()" by simp
  from reaches_actions [OF t] f show "publish_actions r = [MelEval cmd]" by simp
  from reaches_snd [OF t] f
  show "\<exists>pre. snd r = pre @ [LogDebug (''Executing command: '' @ cmd), MelEval cmd,
                             LogError (''Failed to export Geometry: '' @ msg)]"
    by simp
next
  assume a: "FileExportSelected p \<in> set (snd (shader_publish h sc' it')) \<and>
      file_exportSelected h p = Some msg'"
  then have t: "reaches (shader_publish h sc' it')
                  (shader_export_and_finish h it' (ls_selection sc') p)"
    using shader_publish_export by blast
  from a have f: "shader_export_and_finish h it' (ls_selection sc') p =
     (Inr (), [LogDebug ''Executing shaders export command:'', FileExportSelected p,
               LogError (''Failed to export Shaders: '' @ msg')])"
    by (simp add: shader_export_fails)
  from reaches_fst [OF t] f show "fst (shader_publish h sc' it') = Inr ()" by simp
  from reaches_actions [OF t] f
  show "publish_actions (shader_publish h sc' it') = [FileExportSelected p]" by simp
  from reaches_snd [OF t] f
  show "\<exists>pre. snd (shader_publish h sc' it') =
               pre @ [LogDebug ''Executing shaders export command:'', FileExportSelected p,
                      LogError (''Failed to export Shaders: '' @ msg')]"
    by simp
qed

lemma failing_geo_publish:
  "geo_publish failing_host sphere_scene demo_context demo_settings sphere_item =
     Some failing_geo_run"
  by code_simp

lemma failing_export_performed: "MelEval sphere_export_cmd \<in> set (snd failing_geo_run)"
  by (simp add: failing_geo_run_def)

lemma failing_shader_performed:
  "FileExportSelected ''/proj/publish/cube_nurbsSphere1.v003.abc''
     \<in> set (snd (shader_publish failing_host sphere_scene sphere_item))"
  by code_simp

theorem publish_export_failure_aborts_witness:
  "fst failing_geo_run = Inr () \<and>
   publish_actions failing_geo_run = [MelEval sphere_export_cmd] \<and>
   publish_actions (shader_publish failing_host sphere_scene sphere_item) =
     [FileExportSelected ''/proj/publish/cube_nurbsSphere1.v003.abc'']"
  using publish_export_failure_aborts
          [of failing_host sphere_scene demo_context demo_settings sphere_item failing_geo_run
              sphere_export_cmd "''AbcExport failed''"
              "''/proj/publish/cube_nurbsSphere1.v003.abc''" sphere_scene sphere_item
              "''write failed''"]
        failing_geo_publish failing_export_performed failing_shader_performed
  by (simp add: failing_host_def)

subsection \<open>The status update\<close>

text \<open>
  Claim C3, as stated, fails: a successful export is not enough for the update. On an item
  whose context has no task the geometry hook exports, runs the base-class publish,
  restores the selection and then raises TypeError on \<open>item.context.task['id']\<close>; and when
  the base-class publish raises after a successful export, the shader hook stops there.
  Neither run performs a remote update.
\<close>

theorem publish_update_counterexample:
  "geo_publish sphere_host sphere_scene demo_context demo_settings taskless_item =
     Some taskless_geo_run \<and>
   MelEval sphere_export_cmd \<in> set (snd taskless_geo_run) \<and>
   mel_eval sphere_host sphere_export_cmd = None \<and>
   writes taskless_geo_run = [] \<and>
   FileExportSelected ''/proj/publish/cube_nurbsSphere1.v003.abc''
     \<in> set (snd (shader_publish unregistered_host sphere_scene sphere_item)) \<and>
   file_exportSelected unregistered_host ''/proj/publish/cube_nurbsSphere1.v003.abc'' = None \<and>
   writes (shader_publish unregistered_host sphere_scene sphere_item) = []"
  by code_simp

text \<open>
  Claim C3, amended. In a run of the geometry hook's publish that executes the export
  command: when the command returns, the base-class publish and the restoring of the
  selection return and the item's context has a task with an id, the run performs exactly
  one remote update, which sets \<open>sg_status_list\<close> of that Task to \<open>rev\<close>; when the
  command raises, the run performs no remote update. The same holds for the shader hook.
\<close>

theorem publish_reports_success:
  "(geo_publish h sc ctx st it = Some r \<and> MelEval cmd \<in> set (snd r) \<longrightarrow>
      (mel_eval h cmd = None \<and> (\<forall>i. base_publish h i = None) \<and>
       select h (ls_selection sc) = Inr s \<and>
       subscript_opt (task (item_context it)) ''id'' = Inr tid \<longrightarrow>
         writes r = [SgUpdate ''Task'' tid [(''sg_status_list'', ''rev'')]]) \<and>
      (mel_eval h cmd \<noteq> None \<longrightarrow> writes r = []))
   \<and>
   (FileExportSelected p \<in> set (snd (shader_publish h sc' it')) \<longrightarrow>
      (file_exportSelected h p = None \<and> (\<forall>i. base_publish h i = None) \<and>
       select h (ls_selection sc') = Inr s' \<and>
       subscript_opt (task (item_context it')) ''id'' = Inr tid' \<longrightarrow>
         writes (shader_publish h sc' it') =
           [SgUpdate ''Task'' tid' [(''sg_status_list'', ''rev'')]]) \<and>
      (file_exportSelected h p \<noteq> None \<longrightarrow> writes (shader_publish h sc' it') = []))"
proof (intro conjI impI)
  assume a: "geo_publish h sc ctx st it = Some r \<and> MelEval cmd \<in> set (snd r)"
  then obtain ty where t: "reaches r (geo_export_and_finish h it ty (ls_selection sc) cmd)"
    using geo_publish_export by blast
  {
    assume ok: "mel_eval h cmd = None \<and> (\<forall>i. base_publish h i = None) \<and>
       select h (ls_selection sc) = Inr s \<and>
       subscript_opt (task (item_context it)) ''id'' = Inr tid"
    then have "snd (publish_finish h it ty (ls_selection sc)) =
                 [BasePublish ty, Select (ls_selection sc), status_update tid]"
      by (intro publish_finish_ok) auto
    with ok have "writes (geo_export_and_finish h it ty (ls_selection sc) cmd) =
                    [SgUpdate ''Task'' tid [(''sg_status_list'', ''rev'')]]"
      by (simp add: geo_export_ok writes_def status_update_def)
    with reaches_writes [OF t]
    show "writes r = [SgUpdate ''Task'' tid [(''sg_status_list'', ''rev'')]]"
      by simp
  }
  {
    assume "mel_eval h cmd \<noteq> None"
    then obtain msg where "mel_eval h cmd = Some msg" by auto
    then have "writes (geo_export_and_finish h it ty (ls_selection sc) cmd) = []"
      by (simp add: geo_export_fails writes_def)
    with reaches_writes [OF t] show "writes r = []" by simp
  }
next
  assume a: "FileExportSelected p \<in> set (snd (shader_publish h sc' it'))"
  then have t: "reaches (shader_publish h sc' it')
                  (shader_export_and_finish h it' (ls_selection sc') p)"
    by (rule shader_publish_export)
  {
    assume ok: "file_exportSelected h p = None \<and> (\<forall>i. base_publish h i = None) \<and>
       select h (ls_selection sc') = Inr s' \<and>
       subscript_opt (task (item_context it')) ''id'' = Inr tid'"
    then have "snd (publish_finish h it' ''Maya Shading Network'' (ls_selection sc')) =
                 [BasePublish ''Maya Shading Network'', Select (ls_selection sc'),
                  status_update tid']"
      by (intro publish_finish_ok) auto
    with ok have "writes (shader_export_and_finish h it' (ls_selection sc') p) =
                    [SgUpdate ''Task'' tid' [(''sg_status_list'', ''rev'')]]"
      by (simp add: shader_export_ok writes_def status_update_def)
    with reaches_writes [OF t]
    show "writes (shader_publish h sc' it') =
            [SgUpdate ''Task'' tid' [(''sg_status_list'', ''rev'')]]"
      by simp
  }
  {
    assume "file_exportSelected h p \<noteq> None"
    then obtain msg where "file_exportSelected h p = Some msg" by auto
    then have "writes (shader_export_and_finish h it' (ls_selection sc') p) = []"
      by (simp add: shader_export_fails writes_def)
    with reaches_writes [OF t] show "writes (shader_publish h sc' it') = []" by simp
  }
qed

lemma successful_geo_publish:
  "geo_publish sphere_host sphere_scene demo_context demo_settings sphere_item =
     Some successful_geo_run"
  by code_simp

lemma successful_export_performed: "MelEval sphere_export_cmd \<in> set (snd successful_geo_run)"
  by (simp add: successful_geo_run_def)

lemma successful_shader_performed:
  "FileExportSelected ''/proj/publish/cube_nurbsSphere1.v003.abc''
     \<in> set (snd (shader_publish sphere_host sphere_scene sphere_item))"
  by code_simp

lemma sphere_host_returns:
  "mel_eval sphere_host c = None \<and> (\<forall>i. base_publish sphere_host i = None) \<and>
   select sphere_host ns = Inr sphere_scene \<and> file_exportSelected sphere_host q = None"
  by (simp add: sphere_host_def demo_host_def)

lemma sphere_task: "subscript_opt (task (item_context sphere_item)) ''id'' = Inr (PyInt 77)"
  by code_simp

theorem publish_reports_success_witness:
  "writes successful_geo_run = [SgUpdate ''Task'' (PyInt 77) [(''sg_status_list'', ''rev'')]] \<and>
   writes (shader_publish sphere_host sphere_scene sphere_item) =
     [SgUpdate ''Task'' (PyInt 77) [(''sg_status_list'', ''rev'')]]"
  using publish_reports_success
          [of sphere_host sphere_scene demo_context demo_settings sphere_item
              successful_geo_run sphere_export_cmd sphere_scene "PyInt 77"
              "''/proj/publish/cube_nurbsSphere1.v003.abc''" sphere_scene sphere_item
              sphere_scene "PyInt 77"]
        successful_geo_publish successful_export_performed successful_shader_performed
        sphere_host_returns sphere_task
  by simp

subsection \<open>The undefined name\<close>

text \<open>
  Claim C1. When the selection yields at least one mesh shape,
  \<open>bake_facesets_for_selection\<close> raises NameError for
  \<open>convert_object_level_materials_to_face_sets\<close>: the module binds only the name with the
  leading underscore. The condition of line 405 is truthy whatever the step is (also when
  the context has no step), so for every item that is not the session item, once the
  statements before line 402 have run and \<open>cmds.select\<close> has returned, publish makes the
  call; nothing catches the exception, and publish ends with it before any export.
\<close>

theorem bake_facesets_name_error:
  assumes "fst (priv_get_selected_mesh_shapes sc') = Inr shapes" and "shapes \<noteq> []"
  shows "fst (bake_facesets_for_selection sc' rm verbose) =
           Inl (NameError ''convert_object_level_materials_to_face_sets'')
       \<and> (\<exists>c. step_condition shading_in_step = Inr c \<and> truthy c)
       \<and> (item_type it \<noteq> ''maya.session.geometries'' \<and>
          geo_publish_begin h st it = (Inr x, events_before) \<and>
          map_of (properties it) ''object'' = Some object \<and>
          as_names object = Inr names \<and>
          select h names = Inr sc' \<longrightarrow>
          geo_publish h sc ctx st it =
            Some (Inl (NameError ''convert_object_level_materials_to_face_sets''),
                  events_before @ [Select names] @ snd (priv_get_selected_mesh_shapes sc')))"
proof (intro conjI impI)
  show "fst (bake_facesets_for_selection sc' rm verbose) =
           Inl (NameError ''convert_object_level_materials_to_face_sets'')"
    using bake_raises [OF assms] by simp
  show "\<exists>c. step_condition shading_in_step = Inr c \<and> truthy c"
    by (simp add: step_condition_def py_or_def)
  assume a: "item_type it \<noteq> ''maya.session.geometries'' \<and>
          geo_publish_begin h st it = (Inr x, events_before) \<and>
          map_of (properties it) ''object'' = Some object \<and>
          as_names object = Inr names \<and>
          select h names = Inr sc'"
  have target: "geo_publish_target h sc ctx it =
          Some (Inl (NameError ''convert_object_level_materials_to_face_sets''),
                [Select names] @ snd (priv_get_selected_mesh_shapes sc'))"
    using a bake_raises [OF assms, of True True]
    by (simp add: geo_publish_target_def andthen_cases lift_def subscript_def select_run_def
          host_result_def step_condition_def py_or_def)
  obtain publish_path alembic_args where x: "x = (publish_path, alembic_args)"
    by (cases x)
  show "geo_publish h sc ctx st it =
            Some (Inl (NameError ''convert_object_level_materials_to_face_sets''),
                  events_before @ [Select names] @ snd (priv_get_selected_mesh_shapes sc'))"
    using a x target
    by (simp add: geo_publish_def andthen_opt_def andthen_cases)
qed

lemma cube_shapes:
  "fst (priv_get_selected_mesh_shapes cube_scene) = Inr [''|pCube1|pCubeShape1'']"
  by code_simp

lemma demo_begin:
  "geo_publish_begin demo_host demo_settings demo_item =
     (Inr (''/proj/publish/cube_pCube1.v003.abc'',
           [''-renderableOnly'', ''-worldSpace'', ''-dataformat'', ''ogawa'',
            ''-writeFaceSets'', ''-uvWrite'']),
      [EnsureFolderExists ''/proj/publish''])"
  by code_simp

lemma demo_object:
  "item_type demo_item \<noteq> ''maya.session.geometries'' \<and>
   map_of (properties demo_item) ''object'' = Some (PVal (PyStr ''pCube1'')) \<and>
   as_names (PVal (PyStr ''pCube1'')) = Inr [''pCube1''] \<and>
   select demo_host [''pCube1''] = Inr cube_scene"
  by (simp add: demo_item_def demo_host_def as_names_def)

theorem bake_facesets_name_error_witness:
  "fst (bake_facesets_for_selection cube_scene True True) =
     Inl (NameError ''convert_object_level_materials_to_face_sets'') \<and>
   geo_publish demo_host cube_scene demo_context demo_settings demo_item =
     Some (Inl (NameError ''convert_object_level_materials_to_face_sets''),
           [EnsureFolderExists ''/proj/publish'', Select [''pCube1'']] @
           snd (priv_get_selected_mesh_shapes cube_scene))"
  using bake_facesets_name_error
          [OF cube_shapes, where rm = True and verbose = True and it = demo_item
             and h = demo_host and st = demo_settings
             and x = "(''/proj/publish/cube_pCube1.v003.abc'',
                       [''-renderableOnly'', ''-worldSpace'', ''-dataformat'', ''ogawa'',
                        ''-writeFaceSets'', ''-uvWrite''])"
             and events_before = "[EnsureFolderExists ''/proj/publish'']"
             and object = "PVal (PyStr ''pCube1'')" and names = "[''pCube1'']"
             and sc = cube_scene and ctx = demo_context
             and shading_in_step = "Inr (PyBool False)"]
        demo_begin demo_object
  by simp

subsection \<open>validate\<close>

lemma andthen_lift_Inr [simp]: "andthen (lift (Inr x)) f = f x"
  by (cases "f x") (simp add: andthen_def lift_def)

lemma andthen_lift_Inl [simp]: "andthen (lift (Inl e)) f = (Inl e, [])"
  by (simp add: andthen_def lift_def)

lemma generic_validation_error [simp]:
  "is_generic_exception (fst (validation_error msg))"
  by (simp add: is_generic_exception_def validation_error_def)

lemma validate_unsaved:
  "session_not_saved sc \<Longrightarrow> geo_validate h sc it = not_saved_error h"
  by (auto simp: geo_validate_def session_not_saved_def)

lemma not_saved_error_cases:
  "(priv_get_save_as_action h = Inr action \<longrightarrow>
      (not_saved_error h :: bool run) =
        (Inl (GenericException ''The Maya session has not been saved.''),
         [LogErrorExtra ''The Maya session has not been saved.'' action])) \<and>
   (priv_get_save_as_action h = Inl e \<longrightarrow>
      (not_saved_error h :: bool run) = (Inl e, []) \<and> (\<forall>msg. e \<noteq> GenericException msg))"
  by (auto simp: not_saved_error_def priv_get_save_as_action_def split: option.splits)

lemma validate_no_geometry:
  "\<not> session_not_saved sc \<Longrightarrow> no_geometry sc \<Longrightarrow>
   geo_validate h sc it = validation_error no_geometry_msg"
  by (auto simp: geo_validate_def session_not_saved_def no_geometry_def Let_def
           split: option.splits)

lemma validate_no_fields:
  assumes "\<not> session_not_saved sc" and "\<not> no_geometry sc"
      and "work_fields_of h sc it = None"
  shows "\<exists>e. geo_validate h sc it = (Inl e, []) \<and> (\<forall>msg. e \<noteq> GenericException msg)"
proof -
  from assms(1) obtain sp where sp: "file_sn sc = Some sp" "sp \<noteq> []"
    by (auto simp: session_not_saved_def)
  show ?thesis
  proof (cases "map_of (properties it) ''work_template''")
    case None
    with sp assms(2) show ?thesis
      by (simp add: geo_validate_def Let_def no_geometry_def dict_get_def as_template_def)
  next
    case (Some p)
    show ?thesis
    proof (cases p)
      case (PTemplate k)
      with Some sp assms(3) obtain msg where
        "get_fields (templates h k) (ShotgunPath_normalize h sp) = Inl msg"
        by (auto simp: work_fields_of_def split: sum.splits)
      with PTemplate Some sp assms(2) show ?thesis
        by (simp add: geo_validate_def Let_def no_geometry_def dict_get_def as_template_def
              host_result_def)
    qed (use Some sp assms(2) in
          \<open>simp_all add: geo_validate_def Let_def no_geometry_def dict_get_def as_template_def\<close>)
  qed
qed

lemma work_fields_ofD:
  assumes "work_fields_of h sc it = Some work_fields"
  shows "\<exists>sp k flds. file_sn sc = Some sp \<and>
           map_of (properties it) ''work_template'' = Some (PTemplate k) \<and>
           get_fields (templates h k) (ShotgunPath_normalize h sp) = Inr flds \<and>
           work_fields = AList.update ''maya.object_name''
                           (dict_get (properties it) ''object_name'' (PVal PyNone)) flds"
  using assms
  by (auto simp: work_fields_of_def split: option.splits property.splits sum.splits)

lemma validate_with_fields:
  assumes "\<not> session_not_saved sc" and "\<not> no_geometry sc"
      and "work_fields_of h sc it = Some work_fields"
  shows "(\<forall>n. map_of (properties it) ''publish_template'' \<noteq> Some (PTemplate n)) \<longrightarrow>
           (\<exists>m. geo_validate h sc it = (Inl (AttributeError m), []))"
    and "map_of (properties it) ''publish_template'' = Some (PTemplate n) \<Longrightarrow>
         missing_keys (templates h n) work_fields \<noteq> [] \<Longrightarrow>
           \<exists>msg. geo_validate h sc it = validation_error msg"
    and "map_of (properties it) ''publish_template'' = Some (PTemplate n) \<Longrightarrow>
         missing_keys (templates h n) work_fields = [] \<Longrightarrow>
         map_of (properties it) ''object_name'' = None \<Longrightarrow>
           geo_validate h sc it = (Inl (KeyError ''object_name''), [])"
    and "map_of (properties it) ''publish_template'' = Some (PTemplate n) \<Longrightarrow>
         missing_keys (templates h n) work_fields = [] \<Longrightarrow>
         map_of (properties it) ''object_name'' = Some object_name \<Longrightarrow>
         apply_fields (templates h n)
           (AList.update ''maya.object_name'' object_name work_fields) = Inl msg \<Longrightarrow>
           geo_validate h sc it = (Inl (HostError msg), [])"
    and "map_of (properties it) ''publish_template'' = Some (PTemplate n) \<Longrightarrow>
         missing_keys (templates h n) work_fields = [] \<Longrightarrow>
         map_of (properties it) ''object_name'' = Some object_name \<Longrightarrow>
         apply_fields (templates h n)
           (AList.update ''maya.object_name'' object_name work_fields) = Inr publish_path \<Longrightarrow>
           \<exists>it'. geo_validate h sc it = base_validate_run h it' \<and>
             item_type it' = item_type it \<and> item_context it' = item_context it \<and>
             map_of (properties it') ''path'' = Some (PVal (PyStr publish_path)) \<and>
             map_of (properties it') ''publish_path'' = Some (PVal (PyStr publish_path))"
proof -
  from assms(1) obtain sp where sp: "file_sn sc = Some sp" "sp \<noteq> []"
    by (auto simp: session_not_saved_def)
  from work_fields_ofD [OF assms(3)] sp obtain k flds where
    wt: "map_of (properties it) ''work_template'' = Some (PTemplate k)" and
    gf: "get_fields (templates h k) (ShotgunPath_normalize h sp) = Inr flds" and
    wf: "work_fields = AList.update ''maya.object_name''
                           (dict_get (properties it) ''object_name'' (PVal PyNone)) flds"
    by auto
  note start = sp assms(2) wt gf wf [symmetric]
  show "(\<forall>n. map_of (properties it) ''publish_template'' \<noteq> Some (PTemplate n)) \<longrightarrow>
           (\<exists>m. geo_validate h sc it = (Inl (AttributeError m), []))"
    using start
    by (cases "map_of (properties it) ''publish_template''")
       (auto simp: geo_validate_def Let_def no_geometry_def dict_get_def as_template_def
          host_result_def split: property.splits)
  show "\<exists>msg. geo_validate h sc it = validation_error msg"
    if "map_of (properties it) ''publish_template'' = Some (PTemplate n)"
       "missing_keys (templates h n) work_fields \<noteq> []"
    using start that
    by (auto simp: geo_validate_def Let_def no_geometry_def dict_get_def as_template_def
          host_result_def)
  show "geo_validate h sc it = (Inl (KeyError ''object_name''), [])"
    if "map_of (properties it) ''publish_template'' = Some (PTemplate n)"
       "missing_keys (templates h n) work_fields = []"
       "map_of (properties it) ''object_name'' = None"
    using start that
    by (simp add: geo_validate_def Let_def no_geometry_def dict_get_def as_template_def
          host_result_def subscript_def update_conv')
  show "geo_validate h sc it = (Inl (HostError msg), [])"
    if "map_of (properties it) ''publish_template'' = Some (PTemplate n)"
       "missing_keys (templates h n) work_fields = []"
       "map_of (properties it) ''object_name'' = Some object_name"
       "apply_fields (templates h n)
           (AList.update ''maya.object_name'' object_name work_fields) = Inl msg"
    using start that
    by (simp add: geo_validate_def Let_def no_geometry_def dict_get_def as_template_def
          host_result_def subscript_def update_conv')
  show "\<exists>it'. geo_validate h sc it = base_validate_run h it' \<and>
             item_type it' = item_type it \<and> item_context it' = item_context it \<and>
             map_of (properties it') ''path'' = Some (PVal (PyStr publish_path)) \<and>
             map_of (properties it') ''publish_path'' = Some (PVal (PyStr publish_path))"
    if "map_of (properties it) ''publish_template'' = Some (PTemplate n)"
       "missing_keys (templates h n) work_fields = []"
       "map_of (properties it) ''object_name'' = Some object_name"
       "apply_fields (templates h n)
           (AList.update ''maya.object_name'' object_name work_fields) = Inr publish_path"
  proof (cases "map_of work_fields ''version''")
    case None
    let ?it = "it\<lparr>properties :=
                 AList.update ''publish_path'' (PVal (PyStr publish_path))
                  (AList.update ''path'' (PVal (PyStr publish_path))
                    (AList.update ''publish_name''
                       (PVal (PyStr
                          (let name = os_path_basename h
                                        (py_str h (dict_get (properties it) ''path''
                                                     (PVal PyNone)))
                           in take (length name - 9) name)))
                       (properties it)))\<rparr>"
    have "geo_validate h sc it = base_validate_run h ?it"
      using start that None
      by (simp add: geo_validate_def Let_def no_geometry_def dict_get_def as_template_def
            host_result_def subscript_def update_conv')
    then show ?thesis
      by (intro exI [of _ ?it]) (simp add: update_conv')
  next
    case (Some version)
    let ?it = "it\<lparr>properties :=
                 AList.update ''publish_version'' version
                  (AList.update ''publish_path'' (PVal (PyStr publish_path))
                    (AList.update ''path'' (PVal (PyStr publish_path))
                      (AList.update ''publish_name''
                         (PVal (PyStr
                            (let name = os_path_basename h
                                          (py_str h (dict_get (properties it) ''path''
                                                       (PVal PyNone)))
                             in take (length name - 9) name)))
                         (properties it))))\<rparr>"
    have "geo_validate h sc it = base_validate_run h ?it"
      using start that Some
      by (simp add: geo_validate_def Let_def no_geometry_def dict_get_def as_template_def
            host_result_def subscript_def update_conv')
    then show ?thesis
      by (intro exI [of _ ?it]) (simp add: update_conv')
  qed
qed

lemma base_validate_run_not_generic:
  "\<not> is_generic_exception (fst (base_validate_run h it')) \<and>
   snd (base_validate_run h it') = [BaseValidate (properties it')]"
  by (simp add: base_validate_run_def host_result_def is_generic_exception_def
        split: sum.splits)

text \<open>
  Claim C4, as stated, fails in its last part: when none of the three checks fails,
  validate does not always store the path and delegate. In a saved scene with geometry,
  for an item that has both templates and an \<open>object_name\<close>, a session path that does
  not fit the work template makes \<open>work_template.get_fields(path)\<close> raise; nothing
  catches it, so validate ends with the host's exception: it has raised no generic
  exception of its own, stored nothing and not called the base class.
\<close>

theorem validate_otherwise_counterexample:
  "\<not> session_not_saved sphere_scene \<and>
   \<not> no_geometry sphere_scene \<and>
   \<not> publish_keys_missing offtemplate_host sphere_scene sphere_item \<and>
   map_of (properties sphere_item) ''object_name'' = Some (PVal (PyStr ''nurbsSphere1'')) \<and>
   geo_validate offtemplate_host sphere_scene sphere_item =
     (Inl (HostError ''path does not match the template''), [])"
  by code_simp

text \<open>
  Claim C4, amended. Where the action button of the first log entry can be built,
  validate raises a generic exception in exactly these cases: the session has no saved
  path, the scene has no non-intermediate geometry, or the work fields miss keys of the
  publish template; it has then logged the exception's message as an error and done
  nothing else. The base-class validation is called only when none of the three holds.
  When none of them holds, both templates are there, the session path fits the work
  template, the item has an \<open>object_name\<close> and the publish template can be applied,
  validate stores the resulting path as \<open>path\<close> and \<open>publish_path\<close> in the item's
  properties and delegates: it calls the base-class validation with that item, returns what
  it returns and raises what it raises.
\<close>

theorem validate_checks:
  "((session_not_saved sc \<longrightarrow> priv_get_save_as_action h = Inr action) \<longrightarrow>
      (is_generic_exception (fst (geo_validate h sc it)) \<longleftrightarrow>
         session_not_saved sc \<or> no_geometry sc \<or> publish_keys_missing h sc it))
   \<and> (is_generic_exception (fst (geo_validate h sc it)) \<longrightarrow>
        (\<exists>msg. fst (geo_validate h sc it) = Inl (GenericException msg) \<and>
               (snd (geo_validate h sc it) = [LogError msg] \<or>
                (\<exists>a. snd (geo_validate h sc it) = [LogErrorExtra msg a]))))
   \<and> ((\<exists>ps. BaseValidate ps \<in> set (snd (geo_validate h sc it))) \<longrightarrow>
        \<not> session_not_saved sc \<and> \<not> no_geometry sc \<and> \<not> publish_keys_missing h sc it)
   \<and> (\<not> session_not_saved sc \<and> \<not> no_geometry sc \<and>
      work_fields_of h sc it = Some work_fields \<and>
      map_of (properties it) ''publish_template'' = Some (PTemplate n) \<and>
      missing_keys (templates h n) work_fields = [] \<and>
      map_of (properties it) ''object_name'' = Some object_name \<and>
      apply_fields (templates h n)
        (AList.update ''maya.object_name'' object_name work_fields) = Inr publish_path
      \<longrightarrow>
      (\<exists>it'. geo_validate h sc it =
               (host_result (base_validate h it'), [BaseValidate (properties it')]) \<and>
             item_type it' = item_type it \<and> item_context it' = item_context it \<and>
             map_of (properties it') ''path'' = Some (PVal (PyStr publish_path)) \<and>
             map_of (properties it') ''publish_path'' = Some (PVal (PyStr publish_path))))"
proof -
  let ?V = "geo_validate h sc it"
  let ?three = "session_not_saved sc \<or> no_geometry sc \<or> publish_keys_missing h sc it"
  let ?logged = "\<exists>msg. fst ?V = Inl (GenericException msg) \<and>
               (snd ?V = [LogError msg] \<or> (\<exists>a. snd ?V = [LogErrorExtra msg a]))"
  let ?called = "\<exists>ps. BaseValidate ps \<in> set (snd ?V)"
  have generic: "is_generic_exception (Inl e :: exc + bool) = (\<exists>msg. e = GenericException msg)"
    for e :: exc
    by (cases e) (simp_all add: is_generic_exception_def)
  consider (unsaved) "session_not_saved sc"
    | (nogeo) "\<not> session_not_saved sc" "no_geometry sc"
    | (nofields) "\<not> session_not_saved sc" "\<not> no_geometry sc"
                 "work_fields_of h sc it = None"
    | (fields) wf where "\<not> session_not_saved sc" "\<not> no_geometry sc"
                 "work_fields_of h sc it = Some wf"
    by (cases "work_fields_of h sc it") auto
  then have char:
    "((session_not_saved sc \<longrightarrow> priv_get_save_as_action h = Inr action) \<longrightarrow>
        (is_generic_exception (fst ?V) \<longleftrightarrow> ?three)) \<and>
     (is_generic_exception (fst ?V) \<longrightarrow> ?logged) \<and>
     (?called \<longrightarrow> \<not> ?three)"
  proof cases
    case unsaved
    show ?thesis
    proof (cases "priv_get_save_as_action h")
      case (Inl e)
      with not_saved_error_cases [of h action e] unsaved show ?thesis
        by (auto simp: validate_unsaved generic)
    next
      case (Inr a)
      with not_saved_error_cases [of h a] unsaved show ?thesis
        by (auto simp: validate_unsaved generic)
    qed
  next
    case nogeo
    then show ?thesis
      by (auto simp: validate_no_geometry validation_error_def generic)
  next
    case nofields
    from validate_no_fields [OF nofields] obtain e where
      "?V = (Inl e, [])" "\<forall>msg. e \<noteq> GenericException msg"
      by blast
    with nofields show ?thesis
      by (simp add: generic publish_keys_missing_def)
  next
    case (fields wf)
    note w = validate_with_fields [OF fields]
    show ?thesis
    proof (cases "\<exists>n. map_of (properties it) ''publish_template'' = Some (PTemplate n)")
      case False
      with w(1) obtain m where "?V = (Inl (AttributeError m), [])" by blast
      moreover from False fields have "\<not> publish_keys_missing h sc it"
        by (auto simp: publish_keys_missing_def split: option.splits property.splits)
      ultimately show ?thesis
        using fields by (simp add: generic)
    next
      case True
      then obtain n where n: "map_of (properties it) ''publish_template'' = Some (PTemplate n)"
        by blast
      show ?thesis
      proof (cases "missing_keys (templates h n) wf = []")
        case False
        from w(2) [OF n False] obtain msg where "?V = validation_error msg" by blast
        moreover from False n fields have "publish_keys_missing h sc it"
          by (simp add: publish_keys_missing_def)
        ultimately show ?thesis
          by (auto simp: validation_error_def generic)
      next
        case True
        with n fields have no: "\<not> publish_keys_missing h sc it"
          by (simp add: publish_keys_missing_def)
        have "\<not> is_generic_exception (fst ?V)"
        proof (cases "map_of (properties it) ''object_name''")
          case None
          from w(3) [OF n True None] show ?thesis by (simp add: generic)
        next
          case (Some object_name)
          show ?thesis
          proof (cases "apply_fields (templates h n)
                          (AList.update ''maya.object_name'' object_name wf)")
            case (Inl msg)
            from w(4) [OF n True Some Inl] show ?thesis by (simp add: generic)
          next
            case (Inr publish_path)
            from w(5) [OF n True Some Inr] show ?thesis
              by (auto simp: base_validate_run_not_generic)
          qed
        qed
        with no fields show ?thesis by simp
      qed
    qed
  qed
  have last: "\<exists>it'. ?V = (host_result (base_validate h it'), [BaseValidate (properties it')]) \<and>
             item_type it' = item_type it \<and> item_context it' = item_context it \<and>
             map_of (properties it') ''path'' = Some (PVal (PyStr publish_path)) \<and>
             map_of (properties it') ''publish_path'' = Some (PVal (PyStr publish_path))"
    if "\<not> session_not_saved sc \<and> \<not> no_geometry sc \<and>
      work_fields_of h sc it = Some work_fields \<and>
      map_of (properties it) ''publish_template'' = Some (PTemplate n) \<and>
      missing_keys (templates h n) work_fields = [] \<and>
      map_of (properties it) ''object_name'' = Some object_name \<and>
      apply_fields (templates h n)
        (AList.update ''maya.object_name'' object_name work_fields) = Inr publish_path"
    using that validate_with_fields(5) [of sc h it work_fields n object_name publish_path]
    by (auto simp: base_validate_run_def)
  from char last show ?thesis
    by blast
qed

lemma sphere_checks:
  "\<not> session_not_saved sphere_scene \<and> \<not> no_geometry sphere_scene \<and>
   work_fields_of sphere_host sphere_scene sphere_item =
     Some [(''Asset'', PVal (PyStr ''cube'')), (''version'', PVal (PyInt 3)),
           (''maya.object_name'', PVal (PyStr ''nurbsSphere1''))] \<and>
   map_of (properties sphere_item) ''publish_template'' = Some (PTemplate 1) \<and>
   map_of (properties sphere_item) ''object_name'' = Some (PVal (PyStr ''nurbsSphere1''))"
  by code_simp

lemma sphere_template:
  "missing_keys (templates sphere_host 1) flds = [] \<and>
   apply_fields (templates sphere_host 1) flds = Inr ''/proj/publish/cube_pCube1.v003.abc''"
  by (simp add: sphere_host_def demo_host_def demo_template_def)

lemma sphere_base_validate: "base_validate sphere_host i = Inr True"
  by (simp add: sphere_host_def demo_host_def)

theorem validate_checks_witness:
  "\<not> is_generic_exception (fst (geo_validate sphere_host sphere_scene sphere_item)) \<and>
   (\<exists>it' :: item. geo_validate sphere_host sphere_scene sphere_item =
            (Inr True, [BaseValidate (properties it')]) \<and>
          map_of (properties it') ''path'' =
            Some (PVal (PyStr ''/proj/publish/cube_pCube1.v003.abc'')) \<and>
          map_of (properties it') ''publish_path'' =
            Some (PVal (PyStr ''/proj/publish/cube_pCube1.v003.abc'')))"
proof -
  note checks =
    validate_checks
      [where sc = sphere_scene and h = sphere_host and it = sphere_item and action = "[]"
         and work_fields = "[(''Asset'', PVal (PyStr ''cube'')), (''version'', PVal (PyInt 3)),
                             (''maya.object_name'', PVal (PyStr ''nurbsSphere1''))]"
         and n = 1 and object_name = "PVal (PyStr ''nurbsSphere1'')"
         and publish_path = "''/proj/publish/cube_pCube1.v003.abc''"]
  from checks sphere_checks sphere_template
  obtain it' where run:
    "geo_validate sphere_host sphere_scene sphere_item =
       (host_result (base_validate sphere_host it'), [BaseValidate (properties it')])"
    and paths:
    "map_of (properties it') ''path'' =
       Some (PVal (PyStr ''/proj/publish/cube_pCube1.v003.abc''))"
    "map_of (properties it') ''publish_path'' =
       Some (PVal (PyStr ''/proj/publish/cube_pCube1.v003.abc''))"
    by auto
  from run have result:
    "geo_validate sphere_host sphere_scene sphere_item =
       (Inr True, [BaseValidate (properties it')])"
    by (simp add: sphere_base_validate host_result_def)
  then have "\<not> is_generic_exception (fst (geo_validate sphere_host sphere_scene sphere_item))"
    by (simp add: is_generic_exception_def)
  moreover have "geo_validate sphere_host sphere_scene sphere_item =
            (Inr True, [BaseValidate (properties it')]) \<and>
          map_of (properties it') ''path'' =
            Some (PVal (PyStr ''/proj/publish/cube_pCube1.v003.abc'')) \<and>
          map_of (properties it') ''publish_path'' =
            Some (PVal (PyStr ''/proj/publish/cube_pCube1.v003.abc''))"
    by (intro conjI result paths)
  then have "\<exists>it' :: item. geo_validate sphere_host sphere_scene sphere_item =
            (Inr True, [BaseValidate (properties it')]) \<and>
          map_of (properties it') ''path'' =
            Some (PVal (PyStr ''/proj/publish/cube_pCube1.v003.abc'')) \<and>
          map_of (properties it') ''publish_path'' =
            Some (PVal (PyStr ''/proj/publish/cube_pCube1.v003.abc''))"
    by (rule exI [of _ "it'"])
  ultimately show ?thesis
    by (rule conjI)
qed

subsection \<open>The image sequence branch of the upload hook\<close>

lemma andthen_lift: "andthen (lift r) f = (case r of Inl e \<Rightarrow> (Inl e, []) | Inr x \<Rightarrow> f x)"
  by (cases r) simp_all

lemma andthen_Inl [simp]: "andthen (Inl e, t) f = (Inl e, t)"
  by (simp add: andthen_def)

lemma get_dailies_path_raises:
  "get_dailies_path uh settings it = (Inl (NameError ''_session_path''), [])"
  by (simp add: get_dailies_path_def global_name_def upload_version_namespace_def)

lemma upload_sequence_raises:
  "(\<exists>e. fst (upload_publish_sequence uh settings it) = Inl e) \<and>
   spawned (upload_publish_sequence uh settings it) = []"
  by (auto simp: upload_publish_sequence_def get_dailies_path_raises andthen_lift spawned_def
           split: sum.splits)

text \<open>
  Claim C5 describes what the branch is written to do, and the code never gets there. For
  the render item of \<open>render_item\<close>, which has sequence paths, publish calls
  \<open>get_dailies_path\<close>, whose first statement calls \<open>_session_path\<close>, a name that
  upload\_version.py neither defines nor imports: publish ends with NameError and no
  subprocess is started. The same holds for every host, every settings dictionary and
  every item: the branch always ends with an exception before \<open>Popen\<close> (whose module
  \<open>subprocess\<close> is not imported either).
\<close>

theorem upload_sequence_never_spawns:
  "takes_sequence_branch render_item \<and>
   upload_publish_sequence render_host render_settings render_item =
     (Inl (NameError ''_session_path''), []) \<and>
   global_name ''subprocess'' = Inl (NameError ''subprocess'') \<and>
   (\<forall>uh settings it.
      (\<exists>e. fst (upload_publish_sequence uh settings it) = Inl e) \<and>
      spawned (upload_publish_sequence uh settings it) = [])"
proof (intro conjI)
  show "takes_sequence_branch render_item"
    by code_simp
  show "upload_publish_sequence render_host render_settings render_item =
     (Inl (NameError ''_session_path''), [])"
    by (simp add: upload_publish_sequence_def get_dailies_path_raises render_item_def
          subscript_def)
  show "global_name ''subprocess'' = Inl (NameError ''subprocess'')"
    by code_simp
  show "\<forall>uh settings it.
      (\<exists>e. fst (upload_publish_sequence uh settings it) = Inl e) \<and>
      spawned (upload_publish_sequence uh settings it) = []"
    using upload_sequence_raises by blast
qed

subsection \<open>The lifecycle methods of the hook classes\<close>



end
